theory Spec2Isabelle
  imports Complex_Main
begin

section \<open>The spot fleet request resource of the EC2 service package\<close>

text \<open>
  A shallow embedding of \<^verbatim>\<open>internal/service/ec2/ec2_spot_fleet_request.go\<close>:
  the field mapper for \<^verbatim>\<open>launch_template_config\<close> (expand and flatten), the
  expansion of \<^verbatim>\<open>spot_maintenance_strategies\<close>, and the four lifecycle functions
  \<^verbatim>\<open>resourceSpotFleetRequestCreate\<close>, \<^verbatim>\<open>...Read\<close>, \<^verbatim>\<open>...Update\<close> and
  \<^verbatim>\<open>...Delete\<close>.

  Go pointers are options (\<open>None\<close> is \<^verbatim>\<open>nil\<close>). A \<^verbatim>\<open>map[string]interface{}\<close> whose
  keys are fixed by the resource schema is a record with one field per key: an optional
  field (\<open>None\<close>: the key is absent) where the source tests for the key, a plain one where
  it reads the key without a test. An element of a list of blocks is an option too: an
  empty block reaches the provider as \<^verbatim>\<open>nil\<close>. A \<^verbatim>\<open>*schema.Set\<close> is the list that
  its \<^verbatim>\<open>List()\<close> returns. A \<^verbatim>\<open>float64\<close> that is only copied and compared with
  \<^verbatim>\<open>0.0\<close> is a real.
\<close>

subsection \<open>Errors and diagnostics\<close>

text \<open>
  The error values the resource distinguishes: an AWS error with its code and message
  (\<^verbatim>\<open>awserr.Error\<close>), the not-found error of the retry package, the empty-result error
  that line 1192 creates, a timeout of a waiter, and any other error (\<^verbatim>\<open>fmt.Errorf\<close>).
\<close>

datatype error =
    AWSErr string string
  | NotFoundError
  | EmptyResultError
  | TimeoutError
  | OtherError string

text \<open>
  Modelled from the spec: \<^verbatim>\<open>tfresource.NotFound\<close> is not among the source files. The
  error taxonomy of the spec has one kind \<^verbatim>\<open>NotFoundError\<close>, "treated as
  success-equivalent for Read/Delete, as absence"; the empty-result error belongs to it.
\<close>

fun NotFound :: "error option \<Rightarrow> bool" where
  "NotFound (Some NotFoundError) = True"
| "NotFound (Some EmptyResultError) = True"
| "NotFound _ = False"

text \<open>\<^verbatim>\<open>tfawserr.ErrCodeEquals\<close>: the error is an AWS error carrying the given code.\<close>

fun ErrCodeEquals :: "error option \<Rightarrow> string \<Rightarrow> bool" where
  "ErrCodeEquals (Some (AWSErr c m)) code = (c = code)"
| "ErrCodeEquals _ code = False"

datatype severity = Error | Warning

datatype diagnostic = Diagnostic (Severity: severity) (Summary: string) (Cause: error)

type_synonym diagnostics = "diagnostic list"

text \<open>
  Modelled from the spec: \<^verbatim>\<open>sdkdiag.AppendErrorf\<close> is not among the source files.
  What Delete returns through it at line 1199 is, in the words of the spec, "a fatal error
  for the delete operation": it appends one diagnostic of severity \<^verbatim>\<open>diag.Error\<close>.
  The formatted message is kept as its text and the error it wraps.
\<close>

definition AppendErrorf :: "diagnostics \<Rightarrow> string \<Rightarrow> error \<Rightarrow> diagnostics" where
  "AppendErrorf diags msg err = diags @ [Diagnostic Error msg err]"

definition HasError :: "diagnostics \<Rightarrow> bool" where
  "HasError diags = list_ex (\<lambda>x. Severity x = Error) diags"

text \<open>
  A type assertion without the \<^verbatim>\<open>ok\<close> result does not return when the value is
  \<^verbatim>\<open>nil\<close>: the function panics, and with it the operation that called it.
\<close>

datatype 'a outcome = Panics | Returns 'a

subsection \<open>Values behind pointers and slices\<close>

definition StringValue :: "string option \<Rightarrow> string" where
  "StringValue p = (case p of None \<Rightarrow> [] | Some v \<Rightarrow> v)"

definition Float64Value :: "real option \<Rightarrow> real" where
  "Float64Value p = (case p of None \<Rightarrow> 0 | Some v \<Rightarrow> v)"

definition Int64Value :: "int option \<Rightarrow> int" where
  "Int64Value p = (case p of None \<Rightarrow> 0 | Some v \<Rightarrow> v)"

definition BoolValue :: "bool option \<Rightarrow> bool" where
  "BoolValue p = (case p of None \<Rightarrow> False | Some v \<Rightarrow> v)"

text \<open>
  A slice that starts as \<^verbatim>\<open>var xs []T\<close> and only grows by \<^verbatim>\<open>append\<close> is
  \<^verbatim>\<open>nil\<close> exactly when nothing was appended.
\<close>

definition appended :: "'a list \<Rightarrow> 'a list option" where
  "appended xs = (if xs = [] then None else Some xs)"

text \<open>The elements of a list that are not \<^verbatim>\<open>nil\<close>.\<close>

fun somes :: "'a option list \<Rightarrow> 'a list" where
  "somes [] = []"
| "somes (None # xs) = somes xs"
| "somes (Some x # xs) = x # somes xs"

subsection \<open>The field mapper of \<^verbatim>\<open>launch_template_config\<close>\<close>

text \<open>
  \<^verbatim>\<open>expandInstanceRequirements\<close> has its inverse \<^verbatim>\<open>flattenInstanceRequirements\<close>
  outside the source files, so both sides of \<^verbatim>\<open>instance_requirements\<close> are opaque:
  the map is of any type \<open>'r\<close>, the wire object of any type \<open>'q\<close>, and the two functions
  are arguments of the mapper.
\<close>

record tf_launch_template_specification =
  lt_id :: "string option"
  lt_name :: "string option"
  lt_version :: "string option"

record 'r tf_overrides =
  availability_zone :: "string option"
  instance_requirements :: "'r option list option"
  instance_type :: "string option"
  priority :: "real option"
  override_spot_price :: "string option"
  subnet_id :: "string option"
  weighted_capacity :: "real option"

record 'r tf_launch_template_config =
  launch_template_specification :: "tf_launch_template_specification option list option"
  overrides :: "'r tf_overrides option list option"

record FleetLaunchTemplateSpecification =
  LaunchTemplateId :: "string option"
  LaunchTemplateName :: "string option"
  Version :: "string option"

record 'q LaunchTemplateOverrides =
  AvailabilityZone :: "string option"
  InstanceRequirements :: "'q option"
  InstanceType :: "string option"
  Priority :: "real option"
  Override_SpotPrice :: "string option"
  SubnetId :: "string option"
  WeightedCapacity :: "real option"

record 'q LaunchTemplateConfig =
  LaunchTemplateSpecification :: "FleetLaunchTemplateSpecification option"
  Overrides :: "'q LaunchTemplateOverrides option list option"

text \<open>The test \<^verbatim>\<open>v, ok := tfMap[k].(string); ok && v != ""\<close>, and its float twin.\<close>

definition nonempty_string :: "string option \<Rightarrow> string option" where
  "nonempty_string x = (case x of Some v \<Rightarrow> if v \<noteq> [] then Some v else None | None \<Rightarrow> None)"

definition nonzero_float :: "real option \<Rightarrow> real option" where
  "nonzero_float x = (case x of Some v \<Rightarrow> if v \<noteq> 0 then Some v else None | None \<Rightarrow> None)"

text \<open>
  Lines 1471 to 1472 and 1541 to 1542:
  \<^verbatim>\<open>v, ok := tfMap[k].([]interface{}); ok && len(v) > 0\<close> and then
  \<^verbatim>\<open>v[0].(map[string]interface{})\<close>. The second assertion has no \<^verbatim>\<open>ok\<close> result:
  on the \<^verbatim>\<open>nil\<close> element of an empty block it panics.
\<close>

fun first_block :: "'a option list option \<Rightarrow> 'a option outcome" where
  "first_block None = Returns None"
| "first_block (Some []) = Returns None"
| "first_block (Some (None # _)) = Panics"
| "first_block (Some (Some v # _)) = Returns (Some v)"

fun expandFleetLaunchTemplateSpecification ::
  "tf_launch_template_specification option \<Rightarrow> FleetLaunchTemplateSpecification option" where
  "expandFleetLaunchTemplateSpecification None = None"
| "expandFleetLaunchTemplateSpecification (Some tfMap) =
     Some \<lparr> LaunchTemplateId = nonempty_string (lt_id tfMap),
            LaunchTemplateName = nonempty_string (lt_name tfMap),
            Version = nonempty_string (lt_version tfMap) \<rparr>"

fun expandLaunchTemplateOverrides ::
  "('r \<Rightarrow> 'q option) \<Rightarrow>
   'r tf_overrides option \<Rightarrow> 'q LaunchTemplateOverrides option outcome" where
  "expandLaunchTemplateOverrides expandInstanceRequirements None = Returns None"
| "expandLaunchTemplateOverrides expandInstanceRequirements (Some tfMap) =
     (case first_block (instance_requirements tfMap) of
        Panics \<Rightarrow> Panics
      | Returns v \<Rightarrow>
          Returns (Some
            \<lparr> AvailabilityZone = nonempty_string (availability_zone tfMap),
              InstanceRequirements =
                (case v of None \<Rightarrow> None | Some m \<Rightarrow> expandInstanceRequirements m),
              InstanceType = nonempty_string (instance_type tfMap),
              Priority = nonzero_float (priority tfMap),
              Override_SpotPrice = nonempty_string (override_spot_price tfMap),
              SubnetId = nonempty_string (subnet_id tfMap),
              WeightedCapacity = nonzero_float (weighted_capacity tfMap) \<rparr>))"

text \<open>
  The loop of \<^verbatim>\<open>expandLaunchTemplateOverrideses\<close>: an element that is not a map
  (\<open>None\<close>) is skipped, and so is one whose expansion is \<^verbatim>\<open>nil\<close>.
\<close>

fun expandLaunchTemplateOverrideses ::
  "('r \<Rightarrow> 'q option) \<Rightarrow>
   'r tf_overrides option list \<Rightarrow> 'q LaunchTemplateOverrides option list outcome" where
  "expandLaunchTemplateOverrideses eir [] = Returns []"
| "expandLaunchTemplateOverrideses eir (None # tfList) = expandLaunchTemplateOverrideses eir tfList"
| "expandLaunchTemplateOverrideses eir (Some tfMap # tfList) =
     (case expandLaunchTemplateOverrides eir (Some tfMap) of
        Panics \<Rightarrow> Panics
      | Returns None \<Rightarrow> expandLaunchTemplateOverrideses eir tfList
      | Returns (Some apiObject) \<Rightarrow>
          (case expandLaunchTemplateOverrideses eir tfList of
             Panics \<Rightarrow> Panics
           | Returns apiObjects \<Rightarrow> Returns (Some apiObject # apiObjects)))"

fun expandLaunchTemplateConfig ::
  "('r \<Rightarrow> 'q option) \<Rightarrow>
   'r tf_launch_template_config option \<Rightarrow> 'q LaunchTemplateConfig option outcome" where
  "expandLaunchTemplateConfig eir None = Returns None"
| "expandLaunchTemplateConfig eir (Some tfMap) =
     (case first_block (launch_template_specification tfMap) of
        Panics \<Rightarrow> Panics
      | Returns v \<Rightarrow>
          (case (case overrides tfMap of
                   Some v \<Rightarrow> if length v > 0
                             then expandLaunchTemplateOverrideses eir v else Returns []
                 | None \<Rightarrow> Returns []) of
             Panics \<Rightarrow> Panics
           | Returns apiObjects \<Rightarrow>
               Returns (Some
                 \<lparr> LaunchTemplateSpecification =
                     (case v of
                        None \<Rightarrow> None
                      | Some m \<Rightarrow> expandFleetLaunchTemplateSpecification (Some m)),
                   Overrides = appended apiObjects \<rparr>)))"

fun expandLaunchTemplateConfigs ::
  "('r \<Rightarrow> 'q option) \<Rightarrow>
   'r tf_launch_template_config option list \<Rightarrow> 'q LaunchTemplateConfig option list outcome" where
  "expandLaunchTemplateConfigs eir [] = Returns []"
| "expandLaunchTemplateConfigs eir (None # tfList) = expandLaunchTemplateConfigs eir tfList"
| "expandLaunchTemplateConfigs eir (Some tfMap # tfList) =
     (case expandLaunchTemplateConfig eir (Some tfMap) of
        Panics \<Rightarrow> Panics
      | Returns None \<Rightarrow> expandLaunchTemplateConfigs eir tfList
      | Returns (Some apiObject) \<Rightarrow>
          (case expandLaunchTemplateConfigs eir tfList of
             Panics \<Rightarrow> Panics
           | Returns apiObjects \<Rightarrow> Returns (Some apiObject # apiObjects)))"

fun flattenFleetLaunchTemplateSpecificationForSpotFleetRequest ::
  "FleetLaunchTemplateSpecification option \<Rightarrow> tf_launch_template_specification option" where
  "flattenFleetLaunchTemplateSpecificationForSpotFleetRequest None = None"
| "flattenFleetLaunchTemplateSpecificationForSpotFleetRequest (Some apiObject) =
     Some \<lparr> lt_id = map_option (\<lambda>v. StringValue (Some v)) (LaunchTemplateId apiObject),
            lt_name = map_option (\<lambda>v. StringValue (Some v)) (LaunchTemplateName apiObject),
            lt_version = map_option (\<lambda>v. StringValue (Some v)) (Version apiObject) \<rparr>"

fun flattenLaunchTemplateOverrides ::
  "('q \<Rightarrow> 'r option) \<Rightarrow>
   'q LaunchTemplateOverrides option \<Rightarrow> 'r tf_overrides option" where
  "flattenLaunchTemplateOverrides flattenInstanceRequirements None = None"
| "flattenLaunchTemplateOverrides flattenInstanceRequirements (Some apiObject) =
     Some \<lparr> availability_zone =
              map_option (\<lambda>v. StringValue (Some v)) (AvailabilityZone apiObject),
            instance_requirements =
              map_option (\<lambda>v. [flattenInstanceRequirements v])
                (InstanceRequirements apiObject),
            instance_type = map_option (\<lambda>v. StringValue (Some v)) (InstanceType apiObject),
            priority = map_option (\<lambda>v. Float64Value (Some v)) (Priority apiObject),
            override_spot_price =
              map_option (\<lambda>v. StringValue (Some v)) (Override_SpotPrice apiObject),
            subnet_id = map_option (\<lambda>v. StringValue (Some v)) (SubnetId apiObject),
            weighted_capacity =
              map_option (\<lambda>v. Float64Value (Some v)) (WeightedCapacity apiObject) \<rparr>"

text \<open>The loop of \<^verbatim>\<open>flattenLaunchTemplateOverrideses\<close> skips \<^verbatim>\<open>nil\<close> elements.\<close>

fun flattenLaunchTemplateOverrideses ::
  "('q \<Rightarrow> 'r option) \<Rightarrow>
   'q LaunchTemplateOverrides option list \<Rightarrow> 'r tf_overrides option list" where
  "flattenLaunchTemplateOverrideses fir [] = []"
| "flattenLaunchTemplateOverrideses fir (None # apiObjects) =
     flattenLaunchTemplateOverrideses fir apiObjects"
| "flattenLaunchTemplateOverrideses fir (Some apiObject # apiObjects) =
     flattenLaunchTemplateOverrides fir (Some apiObject)
       # flattenLaunchTemplateOverrideses fir apiObjects"

fun flattenLaunchTemplateConfig ::
  "('q \<Rightarrow> 'r option) \<Rightarrow>
   'q LaunchTemplateConfig option \<Rightarrow> 'r tf_launch_template_config option" where
  "flattenLaunchTemplateConfig fir None = None"
| "flattenLaunchTemplateConfig fir (Some apiObject) =
     Some \<lparr> launch_template_specification =
              map_option
                (\<lambda>v. [flattenFleetLaunchTemplateSpecificationForSpotFleetRequest (Some v)])
                (LaunchTemplateSpecification apiObject),
            overrides = map_option (flattenLaunchTemplateOverrideses fir) (Overrides apiObject) \<rparr>"

fun flattenLaunchTemplateConfigs ::
  "('q \<Rightarrow> 'r option) \<Rightarrow>
   'q LaunchTemplateConfig option list \<Rightarrow> 'r tf_launch_template_config option list" where
  "flattenLaunchTemplateConfigs fir [] = []"
| "flattenLaunchTemplateConfigs fir (None # apiObjects) = flattenLaunchTemplateConfigs fir apiObjects"
| "flattenLaunchTemplateConfigs fir (Some apiObject # apiObjects) =
     flattenLaunchTemplateConfig fir (Some apiObject) # flattenLaunchTemplateConfigs fir apiObjects"

subsection \<open>The mapper of \<^verbatim>\<open>spot_maintenance_strategies\<close>\<close>

record tf_capacity_rebalance =
  replacement_strategy :: "string option"

record tf_spot_maintenance_strategies =
  capacity_rebalance :: "tf_capacity_rebalance option list"

record SpotCapacityRebalance =
  ReplacementStrategy :: "string option"

record SpotMaintenanceStrategies =
  CapacityRebalance :: "SpotCapacityRebalance option"

text \<open>An empty block reaches the provider as a list whose only element is \<^verbatim>\<open>nil\<close>.\<close>

fun expandSpotCapacityRebalance ::
  "tf_capacity_rebalance option list \<Rightarrow> SpotCapacityRebalance option" where
  "expandSpotCapacityRebalance [] = None"
| "expandSpotCapacityRebalance (None # _) = None"
| "expandSpotCapacityRebalance (Some m # _) =
     Some \<lparr> ReplacementStrategy = nonempty_string (replacement_strategy m) \<rparr>"

fun expandSpotMaintenanceStrategies ::
  "tf_spot_maintenance_strategies option list \<Rightarrow> SpotMaintenanceStrategies option" where
  "expandSpotMaintenanceStrategies [] = None"
| "expandSpotMaintenanceStrategies (None # _) = None"
| "expandSpotMaintenanceStrategies (Some m # _) =
     Some \<lparr> CapacityRebalance = expandSpotCapacityRebalance (capacity_rebalance m) \<rparr>"

fun flattenSpotCapacityRebalance ::
  "SpotCapacityRebalance option \<Rightarrow> tf_capacity_rebalance option list" where
  "flattenSpotCapacityRebalance None = []"
| "flattenSpotCapacityRebalance (Some spotCapacityRebalance) =
     [Some \<lparr> replacement_strategy =
               Some (StringValue (ReplacementStrategy spotCapacityRebalance)) \<rparr>]"

fun flattenSpotMaintenanceStrategies ::
  "SpotMaintenanceStrategies option \<Rightarrow> tf_spot_maintenance_strategies option list" where
  "flattenSpotMaintenanceStrategies None = []"
| "flattenSpotMaintenanceStrategies (Some spotMaintenanceStrategies) =
     [Some \<lparr> capacity_rebalance =
               flattenSpotCapacityRebalance (CapacityRebalance spotMaintenanceStrategies) \<rparr>]"

subsection \<open>Launch specifications\<close>

text \<open>
  The maps of \<^verbatim>\<open>launch_specification\<close> and of its block device sets, as
  \<^verbatim>\<open>buildSpotFleetLaunchSpecification\<close> and
  \<^verbatim>\<open>readSpotFleetBlockDeviceMappingsFromConfig\<close> read them (lines 1205 to 1446), and
  the wire objects they build.
\<close>

record tf_ebs_block_device =
  ebs_delete_on_termination :: bool
  ebs_device_name :: string
  ebs_snapshot_id :: "string option"
  ebs_encrypted :: "bool option"
  ebs_kms_key_id :: "string option"
  ebs_volume_size :: "int option"
  ebs_volume_type :: "string option"
  ebs_iops :: "int option"
  ebs_throughput :: "int option"

record tf_ephemeral_block_device =
  ephemeral_device_name :: string
  ephemeral_virtual_name :: string

record tf_root_block_device =
  root_delete_on_termination :: bool
  root_encrypted :: "bool option"
  root_kms_key_id :: "string option"
  root_volume_size :: "int option"
  root_volume_type :: "string option"
  root_iops :: "int option"
  root_throughput :: "int option"

record tf_launch_specification =
  ls_ami :: string
  ls_instance_type :: string
  ls_spot_price :: string
  ls_availability_zone :: "string option"
  ls_placement_tenancy :: "string option"
  ls_placement_group :: "string option"
  ls_ebs_optimized :: "bool option"
  ls_monitoring :: "bool option"
  ls_iam_instance_profile :: "string option"
  ls_iam_instance_profile_arn :: "string option"
  ls_user_data :: "string option"
  ls_key_name :: "string option"
  ls_weighted_capacity :: "string option"
  ls_vpc_security_group_ids :: "string list option"
  ls_tags :: "(string \<times> string) list option"
  ls_subnet_id :: "string option"
  ls_associate_public_ip_address :: "bool option"
  ls_ebs_block_device :: "tf_ebs_block_device list option"
  ls_ephemeral_block_device :: "tf_ephemeral_block_device list option"
  ls_root_block_device :: "tf_root_block_device list option"

record EbsBlockDevice =
  Ebs_DeleteOnTermination :: "bool option"
  Ebs_SnapshotId :: "string option"
  Ebs_Encrypted :: "bool option"
  Ebs_KmsKeyId :: "string option"
  Ebs_VolumeSize :: "int option"
  Ebs_VolumeType :: "string option"
  Ebs_Iops :: "int option"
  Ebs_Throughput :: "int option"

record BlockDeviceMapping =
  DeviceName :: "string option"
  VirtualName :: "string option"
  Ebs :: "EbsBlockDevice option"

record SpotPlacement =
  Placement_AvailabilityZone :: "string option"
  Placement_Tenancy :: "string option"
  Placement_GroupName :: "string option"

record SpotFleetMonitoring =
  Enabled :: "bool option"

record IamInstanceProfileSpecification =
  Profile_Name :: "string option"
  Profile_Arn :: "string option"

record SpotFleetTagSpecification =
  ResourceType :: "string option"
  TagSpecification_Tags :: "(string \<times> string) list"

record InstanceNetworkInterfaceSpecification =
  AssociatePublicIpAddress :: "bool option"
  NetworkInterface_DeleteOnTermination :: "bool option"
  DeviceIndex :: "int option"
  NetworkInterface_SubnetId :: "string option"
  Groups :: "string list"

text \<open>\<^verbatim>\<open>SecurityGroups\<close> holds the group ids of its \<^verbatim>\<open>GroupIdentifier\<close> objects.\<close>

record SpotFleetLaunchSpecification =
  LS_ImageId :: "string option"
  LS_InstanceType :: "string option"
  LS_SpotPrice :: "string option"
  LS_Placement :: "SpotPlacement option"
  LS_EbsOptimized :: "bool option"
  LS_Monitoring :: "SpotFleetMonitoring option"
  LS_IamInstanceProfile :: "IamInstanceProfileSpecification option"
  LS_UserData :: "string option"
  LS_KeyName :: "string option"
  LS_WeightedCapacity :: "real option"
  LS_SecurityGroups :: "string list"
  LS_TagSpecifications :: "SpotFleetTagSpecification list"
  LS_SubnetId :: "string option"
  LS_NetworkInterfaces :: "InstanceNetworkInterfaceSpecification list"
  LS_BlockDeviceMappings :: "BlockDeviceMapping list"

subsection \<open>The resource data, the wire objects and the remote service\<close>

text \<open>
  At the level of the resource the contents of \<^verbatim>\<open>instance_requirements\<close> play no
  part; there both of its sides are the type with one element.
\<close>

type_synonym tf_instance_requirements = unit
type_synonym InstanceRequirements = unit

record LoadBalancersConfig =
  ClassicLoadBalancersConfig :: "string list option"
  TargetGroupsConfig :: "string list option"

record SpotFleetRequestConfigData =
  AllocationStrategy :: "string option"
  ClientToken :: "string option"
  Context :: "string option"
  ExcessCapacityTerminationPolicy :: "string option"
  IamFleetRole :: "string option"
  InstanceInterruptionBehavior :: "string option"
  InstancePoolsToUseCount :: "int option"
  LaunchSpecifications :: "SpotFleetLaunchSpecification list"
  LaunchTemplateConfigs :: "InstanceRequirements LaunchTemplateConfig option list"
  LoadBalancersConfig :: "LoadBalancersConfig option"
  OnDemandAllocationStrategy :: "string option"
  OnDemandMaxTotalPrice :: "string option"
  OnDemandTargetCapacity :: "int option"
  ReplaceUnhealthyInstances :: "bool option"
  SpotMaintenanceStrategies :: "SpotMaintenanceStrategies option"
  SpotPrice :: "string option"
  TagSpecifications :: "(string \<times> string) list"
  TargetCapacity :: "int option"
  TargetCapacityUnitType :: "string option"
  TerminateInstancesWithExpiration :: "bool option"
  Type :: "string option"
  ValidFrom :: "string option"
  ValidUntil :: "string option"

record SpotFleetRequestConfig =
  SpotFleetRequestState :: "string option"
  SpotFleetRequestConfig :: SpotFleetRequestConfigData
  Tags :: "(string \<times> string) list"

record ModifySpotFleetRequestInput =
  Modify_SpotFleetRequestId :: "string option"
  Modify_TargetCapacity :: "int option"
  Modify_OnDemandTargetCapacity :: "int option"
  Modify_ExcessCapacityTerminationPolicy :: "string option"

record CancelSpotFleetRequestsErrorItem =
  Item_Code :: "string option"
  Item_Message :: "string option"
  Item_SpotFleetRequestId :: "string option"

record CancelSpotFleetRequestsOutput =
  UnsuccessfulFleetRequests :: "CancelSpotFleetRequestsErrorItem list"

text \<open>
  \<^verbatim>\<open>*schema.ResourceData\<close>: the handle (\<^verbatim>\<open>d.Id()\<close>), whether the resource was just
  created, the current value of every attribute (\<^verbatim>\<open>d.Get\<close>), and for every attribute
  whether it differs from the state that was read last (\<^verbatim>\<open>d.HasChange\<close>).
\<close>

record ResourceData =
  Id :: string
  IsNewResource :: bool
  HasChange :: "string \<Rightarrow> bool"
  allocation_strategy :: string
  client_token :: string
  context_attr :: string
  excess_capacity_termination_policy :: string
  fleet_type :: string
  iam_fleet_role :: string
  instance_interruption_behaviour :: string
  instance_pools_to_use_count :: int
  launch_specification :: "tf_launch_specification list"
  launch_template_config :: "tf_instance_requirements tf_launch_template_config option list"
  load_balancers :: "string list"
  on_demand_allocation_strategy :: string
  on_demand_max_total_price :: string
  on_demand_target_capacity :: int
  replace_unhealthy_instances :: bool
  spot_maintenance_strategies :: "tf_spot_maintenance_strategies option list"
  spot_price :: string
  spot_request_state :: string
  target_capacity :: int
  target_capacity_unit_type :: string
  target_group_arns :: "string list"
  terminate_instances_on_delete :: string
  terminate_instances_with_expiration :: bool
  valid_from :: string
  valid_until :: string
  wait_for_fulfillment :: bool

text \<open>
  The top-level attributes of the schema (lines 58 to 867), each with its
  \<^verbatim>\<open>ForceNew\<close> flag.
\<close>

definition Schema :: "(string \<times> bool) list" where
  "Schema =
    [(''allocation_strategy'', True),
     (''client_token'', False),
     (''context'', True),
     (''excess_capacity_termination_policy'', False),
     (''fleet_type'', True),
     (''iam_fleet_role'', True),
     (''instance_interruption_behaviour'', True),
     (''instance_pools_to_use_count'', True),
     (''launch_specification'', True),
     (''launch_template_config'', True),
     (''load_balancers'', True),
     (''on_demand_allocation_strategy'', True),
     (''on_demand_max_total_price'', True),
     (''on_demand_target_capacity'', False),
     (''replace_unhealthy_instances'', True),
     (''spot_maintenance_strategies'', False),
     (''spot_price'', True),
     (''spot_request_state'', False),
     (''tags'', False),
     (''tags_all'', False),
     (''target_capacity'', False),
     (''target_capacity_unit_type'', True),
     (''target_group_arns'', True),
     (''terminate_instances_on_delete'', False),
     (''terminate_instances_with_expiration'', True),
     (''valid_from'', True),
     (''valid_until'', True),
     (''wait_for_fulfillment'', False)]"

definition ForceNew :: "string \<Rightarrow> bool" where
  "ForceNew attr = ((attr, True) \<in> set Schema)"

text \<open>
  \<^verbatim>\<open>d.HasChangesExcept(keys...)\<close>: some attribute of the schema that is none of the
  keys has changed.
\<close>

definition HasChangesExcept :: "ResourceData \<Rightarrow> string list \<Rightarrow> bool" where
  "HasChangesExcept d keys =
     list_ex (\<lambda>attr. attr \<notin> set keys \<and> HasChange d attr) (map fst Schema)"

text \<open>\<^verbatim>\<open>d.GetOk\<close> on a string attribute: the value, when it is not the zero value.\<close>

definition GetOk_string :: "string \<Rightarrow> string option" where
  "GetOk_string v = (if v \<noteq> [] then Some v else None)"

text \<open>
  What the remote service and the helpers outside the source files answer. A call that is
  retried or polled inside such a helper is one answer: the result the helper hands back.
  \<^verbatim>\<open>FindSpotFleetInstances_result\<close> is polled by the resource itself, so it takes the
  number of the poll. \<^verbatim>\<open>delete_polls\<close> is the number of polls that fit into the delete
  timeout. \<^verbatim>\<open>FetchRootDeviceName_result\<close> is the answer to the lookup of the root
  device of an image. \<^verbatim>\<open>ParseFloat\<close> is \<^verbatim>\<open>strconv.ParseFloat\<close>,
  \<^verbatim>\<open>StringValueToBase64String\<close> the helper of that name, and
  \<^verbatim>\<open>launch_specification_Tags\<close> the conversion of the tags of a launch
  specification (line 1283).

  Reading the launch specifications back fills sets whose members are hashed with
  \<^verbatim>\<open>create.StringHashcode\<close>, which is outside the source files:
  \<^verbatim>\<open>launchSpecToMap\<close> is the map made of one wire object and
  \<^verbatim>\<open>launch_specification_Set\<close> the members of the set after these maps were
  added to it.
\<close>

record env =
  UniqueId :: string
  getTagSpecificationsIn :: "(string \<times> string) list"
  expandInstanceRequirements :: "tf_instance_requirements \<Rightarrow> InstanceRequirements option"
  flattenInstanceRequirements :: "InstanceRequirements \<Rightarrow> tf_instance_requirements option"
  ParseFloat :: "string \<Rightarrow> error + real"
  StringValueToBase64String :: "string \<Rightarrow> string option"
  launch_specification_Tags :: "(string \<times> string) list \<Rightarrow> (string \<times> string) list"
  FetchRootDeviceName_result :: "string \<Rightarrow> error + string option"
  launchSpecToMap :: "SpotFleetLaunchSpecification \<Rightarrow> string option \<Rightarrow> tf_launch_specification"
  launch_specification_Set :: "tf_launch_specification list \<Rightarrow> tf_launch_specification list"
  RequestSpotFleet_result :: "SpotFleetRequestConfigData \<Rightarrow> error + string option"
  WaitSpotFleetRequestCreated_result :: "string \<Rightarrow> error option"
  WaitSpotFleetRequestFulfilled_result :: "string \<Rightarrow> error option"
  FindSpotFleetRequestByID_result :: "string \<Rightarrow> error + SpotFleetRequestConfig"
  ModifySpotFleetRequest_result :: "ModifySpotFleetRequestInput \<Rightarrow> error option"
  WaitSpotFleetRequestUpdated_result :: "string \<Rightarrow> error option"
  CancelSpotFleetRequests_result ::
    "string list \<Rightarrow> bool \<Rightarrow> error + CancelSpotFleetRequestsOutput option"
  CancelSpotFleetRequestsError :: "CancelSpotFleetRequestsErrorItem list \<Rightarrow> error option"
  FindSpotFleetInstances_result :: "string \<Rightarrow> nat \<Rightarrow> error + string list"
  ValueBool :: "string \<Rightarrow> bool \<times> bool \<times> error option"
  delete_polls :: nat

text \<open>The calls that leave the provider, in the order they are made.\<close>

datatype call =
    Call_RequestSpotFleet SpotFleetRequestConfigData
  | Call_WaitSpotFleetRequestCreated string
  | Call_WaitSpotFleetRequestFulfilled string
  | Call_FindSpotFleetRequestByID string
  | Call_ModifySpotFleetRequest ModifySpotFleetRequestInput
  | Call_WaitSpotFleetRequestUpdated string
  | Call_CancelSpotFleetRequests "string list" bool
  | Call_FindSpotFleetInstances string
  | Call_FetchRootDeviceName string

record world =
  rd :: ResourceData
  calls :: "call list"
  logged :: "string list"

definition called :: "call \<Rightarrow> world \<Rightarrow> world" where
  "called c w = w\<lparr> calls := calls w @ [c] \<rparr>"

definition log_Printf :: "string \<Rightarrow> world \<Rightarrow> world" where
  "log_Printf msg w = w\<lparr> logged := logged w @ [msg] \<rparr>"

definition SetId :: "string \<Rightarrow> world \<Rightarrow> world" where
  "SetId v w = w\<lparr> rd := (rd w)\<lparr> Id := v \<rparr> \<rparr>"

subsection \<open>Building and reading back the launch specifications\<close>

text \<open>The tests \<^verbatim>\<open>ok && v\<close>, \<^verbatim>\<open>ok && v != 0\<close> and \<^verbatim>\<open>ok && v > 0\<close>.\<close>

definition true_bool :: "bool option \<Rightarrow> bool option" where
  "true_bool x = (case x of Some v \<Rightarrow> if v then Some v else None | None \<Rightarrow> None)"

definition nonzero_int :: "int option \<Rightarrow> int option" where
  "nonzero_int x = (case x of Some v \<Rightarrow> if v \<noteq> 0 then Some v else None | None \<Rightarrow> None)"

definition positive_int :: "int option \<Rightarrow> int option" where
  "positive_int x = (case x of Some v \<Rightarrow> if v > 0 then Some v else None | None \<Rightarrow> None)"

text \<open>Lines 1339 to 1380: the mapping of one \<^verbatim>\<open>ebs_block_device\<close>.\<close>

definition ebs_block_device_mapping :: "tf_ebs_block_device \<Rightarrow> BlockDeviceMapping" where
  "ebs_block_device_mapping bd =
     \<lparr> DeviceName = Some (ebs_device_name bd),
       VirtualName = None,
       Ebs = Some \<lparr> Ebs_DeleteOnTermination = Some (ebs_delete_on_termination bd),
                    Ebs_SnapshotId = nonempty_string (ebs_snapshot_id bd),
                    Ebs_Encrypted = true_bool (ebs_encrypted bd),
                    Ebs_KmsKeyId = nonempty_string (ebs_kms_key_id bd),
                    Ebs_VolumeSize = nonzero_int (ebs_volume_size bd),
                    Ebs_VolumeType = nonempty_string (ebs_volume_type bd),
                    Ebs_Iops = positive_int (ebs_iops bd),
                    Ebs_Throughput = positive_int (ebs_throughput bd) \<rparr> \<rparr>"

text \<open>Lines 1382 to 1391: the mapping of one \<^verbatim>\<open>ephemeral_block_device\<close>.\<close>

definition ephemeral_block_device_mapping ::
  "tf_ephemeral_block_device \<Rightarrow> BlockDeviceMapping" where
  "ephemeral_block_device_mapping bd =
     \<lparr> DeviceName = Some (ephemeral_device_name bd),
       VirtualName = Some (ephemeral_virtual_name bd),
       Ebs = None \<rparr>"

text \<open>Lines 1400 to 1426: the volume of one \<^verbatim>\<open>root_block_device\<close>.\<close>

definition root_block_device_ebs :: "tf_root_block_device \<Rightarrow> EbsBlockDevice" where
  "root_block_device_ebs bd =
     \<lparr> Ebs_DeleteOnTermination = Some (root_delete_on_termination bd),
       Ebs_SnapshotId = None,
       Ebs_Encrypted = true_bool (root_encrypted bd),
       Ebs_KmsKeyId = nonempty_string (root_kms_key_id bd),
       Ebs_VolumeSize = nonzero_int (root_volume_size bd),
       Ebs_VolumeType = nonempty_string (root_volume_type bd),
       Ebs_Iops = positive_int (root_iops bd),
       Ebs_Throughput = positive_int (root_throughput bd) \<rparr>"

text \<open>
  Lines 1398 to 1442: the loop over the root block devices. Each one looks the root device
  name of the image up at the remote service. This function and those that use it give,
  next to their result, the calls they made.
\<close>

fun root_block_device_mappings ::
  "env \<Rightarrow> string \<Rightarrow> tf_root_block_device list \<Rightarrow> BlockDeviceMapping list \<Rightarrow>
   (error + BlockDeviceMapping list) \<times> call list" where
  "root_block_device_mappings env ami [] blockDevices = (Inr blockDevices, [])"
| "root_block_device_mappings env ami (bd # vL) blockDevices =
     (case FetchRootDeviceName_result env ami of
        Inr None \<Rightarrow>
          (Inl (OtherError ''Expected 1 AMI for ID, got none''),
           [Call_FetchRootDeviceName ami])
      | Inr (Some dn) \<Rightarrow>
          (case root_block_device_mappings env ami vL
                  (blockDevices @
                     [\<lparr> DeviceName = Some dn, VirtualName = None,
                        Ebs = Some (root_block_device_ebs bd) \<rparr>]) of
             (result, lookups) \<Rightarrow> (result, Call_FetchRootDeviceName ami # lookups))
      | Inl err \<Rightarrow> (Inl err, [Call_FetchRootDeviceName ami]))"

definition readSpotFleetBlockDeviceMappingsFromConfig ::
  "env \<Rightarrow> tf_launch_specification \<Rightarrow> (error + BlockDeviceMapping list) \<times> call list" where
  "readSpotFleetBlockDeviceMappingsFromConfig env d =
     (let blockDevices =
            (case ls_ebs_block_device d of
               Some vL \<Rightarrow> map ebs_block_device_mapping vL | None \<Rightarrow> []) @
            (case ls_ephemeral_block_device d of
               Some vL \<Rightarrow> map ephemeral_block_device_mapping vL | None \<Rightarrow> [])
      in case ls_root_block_device d of
           None \<Rightarrow> (Inr blockDevices, [])
         | Some vL \<Rightarrow>
             if length vL > 1
             then (Inl (OtherError ''Cannot specify more than one root_block_device.''), [])
             else root_block_device_mappings env (ls_ami d) vL blockDevices)"

text \<open>
  Lines 1208 to 1331: the wire object of one launch specification, given the weighted
  capacity that was parsed and the block devices that were read.
\<close>

definition launch_specification_opts ::
  "env \<Rightarrow> tf_launch_specification \<Rightarrow> real option \<Rightarrow> BlockDeviceMapping list \<Rightarrow>
   SpotFleetLaunchSpecification" where
  "launch_specification_opts env d wc blockDevices =
     (let placement_group = nonempty_string (ls_placement_group d);
          securityGroupIds =
            (case ls_vpc_security_group_ids d of Some s \<Rightarrow> s | None \<Rightarrow> []);
          hasSubnetId = (ls_subnet_id d \<noteq> None);
          network_interface =
            (ls_associate_public_ip_address d = Some True \<and> hasSubnetId)
      in \<lparr> LS_ImageId = Some (ls_ami d),
           LS_InstanceType = Some (ls_instance_type d),
           LS_SpotPrice = Some (ls_spot_price d),
           LS_Placement =
             (if ls_availability_zone d \<noteq> None \<or> ls_placement_tenancy d \<noteq> None
                 \<or> placement_group \<noteq> None
              then Some \<lparr> Placement_AvailabilityZone = ls_availability_zone d,
                          Placement_Tenancy = ls_placement_tenancy d,
                          Placement_GroupName = placement_group \<rparr>
              else None),
           LS_EbsOptimized = ls_ebs_optimized d,
           LS_Monitoring = map_option (\<lambda>v. \<lparr> Enabled = Some v \<rparr>) (ls_monitoring d),
           LS_IamInstanceProfile =
             (case nonempty_string (ls_iam_instance_profile_arn d) of
                Some v \<Rightarrow> Some \<lparr> Profile_Name = None, Profile_Arn = Some v \<rparr>
              | None \<Rightarrow>
                  map_option (\<lambda>v. \<lparr> Profile_Name = Some v, Profile_Arn = None \<rparr>)
                    (ls_iam_instance_profile d)),
           LS_UserData =
             (case ls_user_data d of
                Some v \<Rightarrow> StringValueToBase64String env v | None \<Rightarrow> None),
           LS_KeyName = nonempty_string (ls_key_name d),
           LS_WeightedCapacity = wc,
           LS_SecurityGroups = (if network_interface then [] else securityGroupIds),
           LS_TagSpecifications =
             (case ls_tags d of
                Some m \<Rightarrow>
                  if length m > 0
                  then [\<lparr> ResourceType = Some ''instance'',
                          TagSpecification_Tags = launch_specification_Tags env m \<rparr>]
                  else []
              | None \<Rightarrow> []),
           LS_SubnetId = (if network_interface then Some [] else ls_subnet_id d),
           LS_NetworkInterfaces =
             (if network_interface
              then [\<lparr> AssociatePublicIpAddress = Some True,
                      NetworkInterface_DeleteOnTermination = Some True,
                      DeviceIndex = Some 0,
                      NetworkInterface_SubnetId = ls_subnet_id d,
                      Groups = securityGroupIds \<rparr>]
              else []),
           LS_BlockDeviceMappings = blockDevices \<rparr>)"

text \<open>
  \<^verbatim>\<open>buildSpotFleetLaunchSpecification\<close>: a weighted capacity that does not parse is
  an error before any block device is read (lines 1263 to 1269).
\<close>

definition buildSpotFleetLaunchSpecification ::
  "env \<Rightarrow> tf_launch_specification \<Rightarrow> (error + SpotFleetLaunchSpecification) \<times> call list" where
  "buildSpotFleetLaunchSpecification env d =
     (case (case nonempty_string (ls_weighted_capacity d) of
              Some v \<Rightarrow>
                (case ParseFloat env v of Inl err \<Rightarrow> Inl err | Inr wc \<Rightarrow> Inr (Some wc))
            | None \<Rightarrow> Inr None) of
        Inl err \<Rightarrow> (Inl err, [])
      | Inr wc \<Rightarrow>
          (case readSpotFleetBlockDeviceMappingsFromConfig env d of
             (Inl err, lookups) \<Rightarrow> (Inl err, lookups)
           | (Inr blockDevices, lookups) \<Rightarrow>
               (Inr (launch_specification_opts env d wc blockDevices), lookups)))"

fun buildSpotFleetLaunchSpecifications ::
  "env \<Rightarrow> tf_launch_specification list \<Rightarrow>
   (error + SpotFleetLaunchSpecification list) \<times> call list" where
  "buildSpotFleetLaunchSpecifications env [] = (Inr [], [])"
| "buildSpotFleetLaunchSpecifications env (userSpec # userSpecs) =
     (case buildSpotFleetLaunchSpecification env userSpec of
        (Inl err, lookups) \<Rightarrow> (Inl err, lookups)
      | (Inr opts, lookups) \<Rightarrow>
          (case buildSpotFleetLaunchSpecifications env userSpecs of
             (Inl err, others) \<Rightarrow> (Inl err, lookups @ others)
           | (Inr specs, others) \<Rightarrow> (Inr (opts # specs), lookups @ others)))"

text \<open>
  \<^verbatim>\<open>launchSpecsToSet\<close> (lines 1866 to 1877): one lookup of the root device name
  for each launch specification, up to the first lookup that fails.
\<close>

fun launchSpecsToMaps ::
  "env \<Rightarrow> SpotFleetLaunchSpecification list \<Rightarrow>
   (error + tf_launch_specification list) \<times> call list" where
  "launchSpecsToMaps env [] = (Inr [], [])"
| "launchSpecsToMaps env (spec # launchSpecs) =
     (case FetchRootDeviceName_result env (StringValue (LS_ImageId spec)) of
        Inl err \<Rightarrow> (Inl err, [Call_FetchRootDeviceName (StringValue (LS_ImageId spec))])
      | Inr rootDeviceName \<Rightarrow>
          (case launchSpecsToMaps env launchSpecs of
             (Inl err, lookups) \<Rightarrow>
               (Inl err, Call_FetchRootDeviceName (StringValue (LS_ImageId spec)) # lookups)
           | (Inr maps, lookups) \<Rightarrow>
               (Inr (launchSpecToMap env spec rootDeviceName # maps),
                Call_FetchRootDeviceName (StringValue (LS_ImageId spec)) # lookups)))"

definition launchSpecsToSet ::
  "env \<Rightarrow> SpotFleetLaunchSpecification list \<Rightarrow>
   (error + tf_launch_specification list) \<times> call list" where
  "launchSpecsToSet env launchSpecs =
     (case launchSpecsToMaps env launchSpecs of
        (Inl err, lookups) \<Rightarrow> (Inl err, lookups)
      | (Inr maps, lookups) \<Rightarrow> (Inr (launch_specification_Set env maps), lookups))"

definition called_all :: "call list \<Rightarrow> world \<Rightarrow> world" where
  "called_all cs w = w\<lparr> calls := calls w @ cs \<rparr>"

subsection \<open>Read\<close>

text \<open>Lines 1041 to 1061: the attributes set before the launch specifications are read.\<close>

definition read_attributes :: "SpotFleetRequestConfig \<Rightarrow> ResourceData \<Rightarrow> ResourceData" where
  "read_attributes output d =
     (let config = SpotFleetRequestConfig output in
      d\<lparr> spot_request_state := StringValue (SpotFleetRequestState output),
         allocation_strategy := StringValue (AllocationStrategy config),
         instance_pools_to_use_count := Int64Value (InstancePoolsToUseCount config),
         client_token := StringValue (ClientToken config),
         context_attr := StringValue (Context config),
         excess_capacity_termination_policy :=
           StringValue (ExcessCapacityTerminationPolicy config),
         iam_fleet_role := StringValue (IamFleetRole config),
         spot_maintenance_strategies :=
           flattenSpotMaintenanceStrategies (SpotMaintenanceStrategies config),
         spot_price := StringValue (SpotPrice config),
         target_capacity := Int64Value (TargetCapacity config),
         target_capacity_unit_type := StringValue (TargetCapacityUnitType config),
         terminate_instances_with_expiration :=
           BoolValue (TerminateInstancesWithExpiration config),
         valid_from := (case ValidFrom config of Some t \<Rightarrow> t | None \<Rightarrow> valid_from d),
         valid_until := (case ValidUntil config of Some t \<Rightarrow> t | None \<Rightarrow> valid_until d) \<rparr>)"

text \<open>Lines 1069 to 1106: the attributes set once the launch specifications are there.\<close>

definition read_more_attributes ::
  "env \<Rightarrow> SpotFleetRequestConfigData \<Rightarrow> tf_launch_specification list \<Rightarrow>
   ResourceData \<Rightarrow> ResourceData" where
  "read_more_attributes env config launchSpec d =
     (let d1 = d\<lparr> replace_unhealthy_instances := BoolValue (ReplaceUnhealthyInstances config),
                  instance_interruption_behaviour :=
                    StringValue (InstanceInterruptionBehavior config),
                  fleet_type := StringValue (Type config),
                  launch_specification := launchSpec,
                  launch_template_config :=
                    flattenLaunchTemplateConfigs (flattenInstanceRequirements env)
                      (LaunchTemplateConfigs config),
                  on_demand_target_capacity := Int64Value (OnDemandTargetCapacity config),
                  on_demand_allocation_strategy :=
                    StringValue (OnDemandAllocationStrategy config),
                  on_demand_max_total_price := StringValue (OnDemandMaxTotalPrice config) \<rparr>
      in case LoadBalancersConfig config of
           None \<Rightarrow> d1
         | Some lbConf \<Rightarrow>
             (let d2 = (case ClassicLoadBalancersConfig lbConf of
                          None \<Rightarrow> d1 | Some flatLbs \<Rightarrow> d1\<lparr> load_balancers := flatLbs \<rparr>)
              in case TargetGroupsConfig lbConf of
                   None \<Rightarrow> d2 | Some flatTgs \<Rightarrow> d2\<lparr> target_group_arns := flatTgs \<rparr>))"

definition resourceSpotFleetRequestRead :: "env \<Rightarrow> world \<Rightarrow> diagnostics \<times> world" where
  "resourceSpotFleetRequestRead env w =
     (let diags = [];
          w1 = called (Call_FindSpotFleetRequestByID (Id (rd w))) w
      in case FindSpotFleetRequestByID_result env (Id (rd w)) of
           Inl err \<Rightarrow>
             if \<not> IsNewResource (rd w) \<and> NotFound (Some err)
             then (diags,
                   SetId []
                     (log_Printf ''[WARN] EC2 Spot Fleet Request not found, removing from state''
                        w1))
             else (AppendErrorf diags ''reading EC2 Spot Fleet Request'' err, w1)
         | Inr output \<Rightarrow>
             (let config = SpotFleetRequestConfig output;
                  w2 = w1\<lparr> rd := read_attributes output (rd w1) \<rparr>
              in case launchSpecsToSet env (LaunchSpecifications config) of
                   (Inl err, lookups) \<Rightarrow>
                     (AppendErrorf diags
                        ''reading EC2 Spot Fleet Request launch specifications'' err,
                      called_all lookups w2)
                 | (Inr launchSpec, lookups) \<Rightarrow>
                     (let w3 = called_all lookups w2
                      in (diags,
                          w3\<lparr> rd := read_more_attributes env config launchSpec (rd w3) \<rparr>))))"

text \<open>\<^verbatim>\<open>append(diags, resourceSpotFleetRequestRead(ctx, d, meta)...)\<close>\<close>

definition append_Read :: "diagnostics \<Rightarrow> env \<Rightarrow> world \<Rightarrow> diagnostics \<times> world" where
  "append_Read diags env w =
     (diags @ fst (resourceSpotFleetRequestRead env w), snd (resourceSpotFleetRequestRead env w))"

subsection \<open>Create\<close>

text \<open>
  Lines 880 to 991: the request configuration, given the launch specifications that were
  built and the launch template configurations that were expanded. Its fields are assigned
  one by one in the source; no assignment reads a field assigned before it, so the record
  is written at once. Times are carried as their RFC 3339 text.
\<close>

definition spotFleetConfig_of ::
  "env \<Rightarrow> ResourceData \<Rightarrow> SpotFleetLaunchSpecification list \<Rightarrow>
   InstanceRequirements LaunchTemplateConfig option list \<Rightarrow> SpotFleetRequestConfigData" where
  "spotFleetConfig_of env d launchSpecs launchTemplateConfigs =
     \<lparr> AllocationStrategy =
         Some (case GetOk_string (allocation_strategy d) of
                 Some v \<Rightarrow> v | None \<Rightarrow> ''lowestPrice''),
       ClientToken = Some (UniqueId env),
       Context = GetOk_string (context_attr d),
       ExcessCapacityTerminationPolicy = GetOk_string (excess_capacity_termination_policy d),
       IamFleetRole = Some (iam_fleet_role d),
       InstanceInterruptionBehavior = Some (instance_interruption_behaviour d),
       InstancePoolsToUseCount =
         (if instance_pools_to_use_count d \<noteq> 0 \<and> instance_pools_to_use_count d \<noteq> 1
          then Some (instance_pools_to_use_count d) else None),
       LaunchSpecifications = launchSpecs,
       LaunchTemplateConfigs = launchTemplateConfigs,
       LoadBalancersConfig =
         (if length (load_balancers d) > 0 \<or> length (target_group_arns d) > 0
          then Some \<lparr> ClassicLoadBalancersConfig =
                        (if length (load_balancers d) > 0
                         then Some (load_balancers d) else None),
                      TargetGroupsConfig =
                        (if length (target_group_arns d) > 0
                         then Some (target_group_arns d) else None) \<rparr>
          else None),
       OnDemandAllocationStrategy = GetOk_string (on_demand_allocation_strategy d),
       OnDemandMaxTotalPrice = GetOk_string (on_demand_max_total_price d),
       OnDemandTargetCapacity = Some (on_demand_target_capacity d),
       ReplaceUnhealthyInstances = Some (replace_unhealthy_instances d),
       SpotMaintenanceStrategies =
         (if spot_maintenance_strategies d \<noteq> []
          then expandSpotMaintenanceStrategies (spot_maintenance_strategies d) else None),
       SpotPrice = GetOk_string (spot_price d),
       TagSpecifications = getTagSpecificationsIn env,
       TargetCapacity = Some (target_capacity d),
       TargetCapacityUnitType = GetOk_string (target_capacity_unit_type d),
       TerminateInstancesWithExpiration = Some (terminate_instances_with_expiration d),
       Type = Some (fleet_type d),
       ValidFrom = GetOk_string (valid_from d),
       ValidUntil = GetOk_string (valid_until d) \<rparr>"

text \<open>Lines 998 to 1022: the request, the handle, the waits and the read.\<close>

definition create_request ::
  "env \<Rightarrow> SpotFleetRequestConfigData \<Rightarrow> world \<Rightarrow> diagnostics \<times> world" where
  "create_request env spotFleetConfig w =
     (let diags = [];
          w1 = called (Call_RequestSpotFleet spotFleetConfig) w
      in case RequestSpotFleet_result env spotFleetConfig of
           Inl err \<Rightarrow> (AppendErrorf diags ''creating EC2 Spot Fleet Request'' err, w1)
         | Inr SpotFleetRequestId \<Rightarrow>
             (let w2 = SetId (StringValue SpotFleetRequestId) w1;
                  w3 = called (Call_WaitSpotFleetRequestCreated (Id (rd w2))) w2
              in case WaitSpotFleetRequestCreated_result env (Id (rd w2)) of
                   Some err \<Rightarrow>
                     (AppendErrorf diags ''waiting for EC2 Spot Fleet Request create'' err, w3)
                 | None \<Rightarrow>
                     if wait_for_fulfillment (rd w3)
                     then (let w4 = called (Call_WaitSpotFleetRequestFulfilled (Id (rd w3))) w3
                           in case WaitSpotFleetRequestFulfilled_result env (Id (rd w3)) of
                                Some err \<Rightarrow>
                                  (AppendErrorf diags
                                     ''waiting for EC2 Spot Fleet Request fulfillment'' err, w4)
                              | None \<Rightarrow> append_Read diags env w4)
                     else append_Read diags env w3))"

text \<open>
  Lines 877 to 996: either an early return, with its diagnostics, or the configuration
  to request. The launch specifications are built first (lines 895 to 901), with their
  lookups at the remote service; then the launch template configurations are expanded
  (lines 903 to 905), which can panic; the guard of lines 926 to 931 comes after both.
\<close>

definition create_launch_specifications ::
  "env \<Rightarrow> ResourceData \<Rightarrow> (error + SpotFleetLaunchSpecification list) \<times> call list" where
  "create_launch_specifications env d =
     (let launchSpecificationOk = (launch_specification d \<noteq> [])
      in if launchSpecificationOk
         then buildSpotFleetLaunchSpecifications env (launch_specification d)
         else (Inr [], []))"

definition create_config ::
  "env \<Rightarrow> world \<Rightarrow>
   ((diagnostics \<times> world) + (SpotFleetRequestConfigData \<times> world)) outcome" where
  "create_config env w =
     (let diags = []
      in case create_launch_specifications env (rd w) of
           (Inl err, lookups) \<Rightarrow>
             Returns (Inl (AppendErrorf diags ''creating EC2 Spot Fleet Request'' err,
                           called_all lookups w))
         | (Inr launchSpecs, lookups) \<Rightarrow>
             (let w1 = called_all lookups w in
              case (if length (launch_template_config (rd w1)) > 0
                    then expandLaunchTemplateConfigs (expandInstanceRequirements env)
                           (launch_template_config (rd w1))
                    else Returns []) of
                Panics \<Rightarrow> Panics
              | Returns launchTemplateConfigs \<Rightarrow>
                  (let spotFleetConfig =
                         spotFleetConfig_of env (rd w1) launchSpecs launchTemplateConfigs
                   in if fleet_type (rd w1) \<noteq> ''maintain''
                         \<and> SpotMaintenanceStrategies spotFleetConfig \<noteq> None
                      then Returns (Inl (diags,
                             log_Printf
                               ''[WARN] Spot Fleet has an invalid configuration and can not be requested.''
                               w1))
                      else Returns (Inr (spotFleetConfig, w1)))))"

definition resourceSpotFleetRequestCreate ::
  "env \<Rightarrow> world \<Rightarrow> (diagnostics \<times> world) outcome" where
  "resourceSpotFleetRequestCreate env w =
     (case create_config env w of
        Panics \<Rightarrow> Panics
      | Returns (Inl early) \<Rightarrow> Returns early
      | Returns (Inr (spotFleetConfig, w1)) \<Rightarrow>
          Returns (create_request env spotFleetConfig w1))"

subsection \<open>Update\<close>

text \<open>Lines 1117 to 1133: the modify request.\<close>

definition modify_input :: "ResourceData \<Rightarrow> ModifySpotFleetRequestInput" where
  "modify_input d =
     \<lparr> Modify_SpotFleetRequestId = Some (Id d),
       Modify_TargetCapacity =
         (if HasChange d ''target_capacity'' then Some (target_capacity d) else None),
       Modify_OnDemandTargetCapacity =
         (if HasChange d ''on_demand_target_capacity''
          then Some (on_demand_target_capacity d) else None),
       Modify_ExcessCapacityTerminationPolicy =
         (if HasChange d ''excess_capacity_termination_policy''
          then GetOk_string (excess_capacity_termination_policy d) else None) \<rparr>"

definition resourceSpotFleetRequestUpdate :: "env \<Rightarrow> world \<Rightarrow> diagnostics \<times> world" where
  "resourceSpotFleetRequestUpdate env w =
     (let diags = []
      in if HasChangesExcept (rd w) [''tags'', ''tags_all'']
         then (let input = modify_input (rd w);
                   w1 = called (Call_ModifySpotFleetRequest input) w
               in case ModifySpotFleetRequest_result env input of
                    Some err \<Rightarrow>
                      (AppendErrorf diags ''updating EC2 Spot Fleet Request'' err, w1)
                  | None \<Rightarrow>
                      (let w2 = called (Call_WaitSpotFleetRequestUpdated (Id (rd w1))) w1
                       in case WaitSpotFleetRequestUpdated_result env (Id (rd w1)) of
                            Some err \<Rightarrow>
                              (AppendErrorf diags
                                 ''waiting for EC2 Spot Fleet Request update'' err, w2)
                          | None \<Rightarrow> append_Read diags env w2))
         else append_Read diags env w)"

subsection \<open>Delete\<close>

text \<open>
  Lines 1152 to 1156. \<^verbatim>\<open>nullable.Bool(...).ValueBool()\<close> is outside the source files;
  the environment gives its three results: the value, whether the attribute is null, and
  the parse error that the source drops.
\<close>

definition terminateInstances :: "env \<Rightarrow> ResourceData \<Rightarrow> bool" where
  "terminateInstances env d =
     (let terminateInstances = terminate_instances_with_expiration d
      in case ValueBool env (terminate_instances_on_delete d) of
           (v, null, _) \<Rightarrow> if \<not> null then v else terminateInstances)"

text \<open>Lines 1159 to 1166: the error after the cancel call.\<close>

definition cancel_error :: "env \<Rightarrow> ResourceData \<Rightarrow> error option" where
  "cancel_error env d =
     (case CancelSpotFleetRequests_result env [Id d] (terminateInstances env d) of
        Inl err \<Rightarrow> Some err
      | Inr None \<Rightarrow> None
      | Inr (Some output) \<Rightarrow> CancelSpotFleetRequestsError env (UnsuccessfulFleetRequests output))"

text \<open>
  Modelled from the spec: \<^verbatim>\<open>tfresource.RetryUntilNotFound\<close> is not among the source
  files. It is the State Poller of the spec used for delete-polling: it "polls the Remote
  API Client at a bounded interval" until "the resource is confirmed deleted" or the
  "timeout elapses", when it returns a timeout error; any other error surfaces to the
  caller. The timeout is the number of polls still allowed; the second result is the
  number of polls made.
\<close>

fun RetryUntilNotFound :: "nat \<Rightarrow> (nat \<Rightarrow> error + 'a) \<Rightarrow> nat \<Rightarrow> error option \<times> nat" where
  "RetryUntilNotFound 0 f i = (Some TimeoutError, i)"
| "RetryUntilNotFound (Suc timeout) f i =
     (case f i of
        Inl err \<Rightarrow> if NotFound (Some err) then (None, Suc i) else (Some err, Suc i)
      | Inr _ \<Rightarrow> RetryUntilNotFound timeout f (Suc i))"

text \<open>Lines 1181 to 1196: one poll of the active instances.\<close>

definition poll_instances :: "env \<Rightarrow> ResourceData \<Rightarrow> nat \<Rightarrow> error + string list" where
  "poll_instances env d i =
     (case FindSpotFleetInstances_result env (Id d) i of
        Inl err \<Rightarrow> Inl err
      | Inr output \<Rightarrow> if length output = 0 then Inl EmptyResultError else Inr output)"

definition resourceSpotFleetRequestDelete :: "env \<Rightarrow> world \<Rightarrow> diagnostics \<times> world" where
  "resourceSpotFleetRequestDelete env w =
     (let diags = [];
          terminate = terminateInstances env (rd w);
          w1 = called (Call_CancelSpotFleetRequests [Id (rd w)] terminate)
                 (log_Printf ''[INFO] Deleting EC2 Spot Fleet Request'' w);
          err = cancel_error env (rd w)
      in if ErrCodeEquals err ''fleetRequestIdDoesNotExist'' then (diags, w1)
         else case err of
                Some e \<Rightarrow> (AppendErrorf diags ''cancelling EC2 Spot Fleet Request'' e, w1)
              | None \<Rightarrow>
                  if \<not> terminate then (diags, w1)
                  else (case RetryUntilNotFound (delete_polls env)
                               (poll_instances env (rd w)) 0 of
                          (err, polls) \<Rightarrow>
                            (let w2 = w1\<lparr> calls := calls w1 @
                                        replicate polls
                                          (Call_FindSpotFleetInstances (Id (rd w))) \<rparr>
                             in case err of
                                  Some e \<Rightarrow>
                                    (AppendErrorf diags
                                       ''waiting for EC2 Spot Fleet Request active instance count to reach 0''
                                       e, w2)
                                | None \<Rightarrow> (diags, w2))))"

subsection \<open>The notions of the specification\<close>

definition HasWarning :: "diagnostics \<Rightarrow> bool" where
  "HasWarning diags = list_ex (\<lambda>x. Severity x = Warning) diags"

text \<open>The calls an operation has added to those made before it.\<close>

definition issued :: "world \<Rightarrow> diagnostics \<times> world \<Rightarrow> call list" where
  "issued w result = drop (length (calls w)) (calls (snd result))"

text \<open>A call that only looks the root device of an image up.\<close>

fun is_lookup :: "call \<Rightarrow> bool" where
  "is_lookup (Call_FetchRootDeviceName ami) = True"
| "is_lookup _ = False"

text \<open>
  The images whose root device is looked up when the launch specifications with these
  images are read back, one after the other: those up to the first whose lookup fails.
\<close>

fun looked_up :: "env \<Rightarrow> string list \<Rightarrow> string list" where
  "looked_up env [] = []"
| "looked_up env (ami # amis) =
     ami # (case FetchRootDeviceName_result env ami of
              Inl err \<Rightarrow> []
            | Inr rootDeviceName \<Rightarrow> looked_up env amis)"

text \<open>The lookups of a Read: none when the fleet request is not found.\<close>

definition Read_lookups :: "env \<Rightarrow> ResourceData \<Rightarrow> call list" where
  "Read_lookups env d =
     (case FindSpotFleetRequestByID_result env (Id d) of
        Inl err \<Rightarrow> []
      | Inr output \<Rightarrow>
          map Call_FetchRootDeviceName
            (looked_up env
               (map (\<lambda>spec. StringValue (LS_ImageId spec))
                  (LaunchSpecifications (SpotFleetRequestConfig output)))))"

text \<open>
  The resource data \<open>d'\<close> are the data \<open>d\<close> refreshed from the answer \<open>output\<close> of the
  remote service and the launch specifications read back from it: every attribute that
  Read sets (lines 1041 to 1106) holds the remote value, with the zero value for a
  \<^verbatim>\<open>nil\<close> pointer; the two times and the two load balancer attributes keep their value
  when the remote service does not give one; everything else is as it was.
\<close>

definition refreshed ::
  "env \<Rightarrow> SpotFleetRequestConfig \<Rightarrow> tf_launch_specification list \<Rightarrow>
   ResourceData \<Rightarrow> ResourceData \<Rightarrow> bool" where
  "refreshed env output launchSpec d d' =
     (spot_request_state d' = StringValue (SpotFleetRequestState output) \<and>
      allocation_strategy d' =
        StringValue (AllocationStrategy (SpotFleetRequestConfig output)) \<and>
      instance_pools_to_use_count d' =
        Int64Value (InstancePoolsToUseCount (SpotFleetRequestConfig output)) \<and>
      client_token d' = StringValue (ClientToken (SpotFleetRequestConfig output)) \<and>
      context_attr d' = StringValue (Context (SpotFleetRequestConfig output)) \<and>
      excess_capacity_termination_policy d' =
        StringValue (ExcessCapacityTerminationPolicy (SpotFleetRequestConfig output)) \<and>
      iam_fleet_role d' = StringValue (IamFleetRole (SpotFleetRequestConfig output)) \<and>
      spot_maintenance_strategies d' =
        flattenSpotMaintenanceStrategies
          (SpotMaintenanceStrategies (SpotFleetRequestConfig output)) \<and>
      spot_price d' = StringValue (SpotPrice (SpotFleetRequestConfig output)) \<and>
      target_capacity d' = Int64Value (TargetCapacity (SpotFleetRequestConfig output)) \<and>
      target_capacity_unit_type d' =
        StringValue (TargetCapacityUnitType (SpotFleetRequestConfig output)) \<and>
      terminate_instances_with_expiration d' =
        BoolValue (TerminateInstancesWithExpiration (SpotFleetRequestConfig output)) \<and>
      valid_from d' =
        (case ValidFrom (SpotFleetRequestConfig output) of
           Some t \<Rightarrow> t | None \<Rightarrow> valid_from d) \<and>
      valid_until d' =
        (case ValidUntil (SpotFleetRequestConfig output) of
           Some t \<Rightarrow> t | None \<Rightarrow> valid_until d) \<and>
      replace_unhealthy_instances d' =
        BoolValue (ReplaceUnhealthyInstances (SpotFleetRequestConfig output)) \<and>
      instance_interruption_behaviour d' =
        StringValue (InstanceInterruptionBehavior (SpotFleetRequestConfig output)) \<and>
      fleet_type d' = StringValue (Type (SpotFleetRequestConfig output)) \<and>
      launch_specification d' = launchSpec \<and>
      launch_template_config d' =
        flattenLaunchTemplateConfigs (flattenInstanceRequirements env)
          (LaunchTemplateConfigs (SpotFleetRequestConfig output)) \<and>
      on_demand_target_capacity d' =
        Int64Value (OnDemandTargetCapacity (SpotFleetRequestConfig output)) \<and>
      on_demand_allocation_strategy d' =
        StringValue (OnDemandAllocationStrategy (SpotFleetRequestConfig output)) \<and>
      on_demand_max_total_price d' =
        StringValue (OnDemandMaxTotalPrice (SpotFleetRequestConfig output)) \<and>
      load_balancers d' =
        (case LoadBalancersConfig (SpotFleetRequestConfig output) of
           None \<Rightarrow> load_balancers d
         | Some lbConf \<Rightarrow>
             (case ClassicLoadBalancersConfig lbConf of
                None \<Rightarrow> load_balancers d | Some flatLbs \<Rightarrow> flatLbs)) \<and>
      target_group_arns d' =
        (case LoadBalancersConfig (SpotFleetRequestConfig output) of
           None \<Rightarrow> target_group_arns d
         | Some lbConf \<Rightarrow>
             (case TargetGroupsConfig lbConf of
                None \<Rightarrow> target_group_arns d | Some flatTgs \<Rightarrow> flatTgs)) \<and>
      Id d' = Id d \<and>
      IsNewResource d' = IsNewResource d \<and>
      HasChange d' = HasChange d \<and>
      terminate_instances_on_delete d' = terminate_instances_on_delete d \<and>
      wait_for_fulfillment d' = wait_for_fulfillment d)"

text \<open>
  What one poll of the active instances tells: there are instances; or there is none
  left, which is also what a not-found error says; or the poll has failed.
\<close>

definition poll_finds_instances :: "error + string list \<Rightarrow> bool" where
  "poll_finds_instances r = (case r of Inl err \<Rightarrow> False | Inr output \<Rightarrow> output \<noteq> [])"

definition poll_finds_none :: "error + string list \<Rightarrow> bool" where
  "poll_finds_none r = (case r of Inl err \<Rightarrow> NotFound (Some err) | Inr output \<Rightarrow> output = [])"

definition set_members :: "'a option list option \<Rightarrow> 'a list" where
  "set_members v = (case v of None \<Rightarrow> [] | Some xs \<Rightarrow> somes xs)"

text \<open>
  A field is set explicitly when its key is there with a value that is not the zero value
  of its type (the test of \<^verbatim>\<open>d.GetOk\<close>). The round trip reproduces a field when a
  field set explicitly comes back as it was, and any field reads back, with the zero value
  for an absent key, as the value it had.
\<close>

definition explicitly_set_string :: "string option \<Rightarrow> bool" where
  "explicitly_set_string s = (case s of Some v \<Rightarrow> v \<noteq> [] | None \<Rightarrow> False)"

definition explicitly_set_float :: "real option \<Rightarrow> bool" where
  "explicitly_set_float s = (case s of Some v \<Rightarrow> v \<noteq> 0 | None \<Rightarrow> False)"

definition reproduces_string :: "string option \<Rightarrow> string option \<Rightarrow> bool" where
  "reproduces_string s r =
     ((explicitly_set_string s \<longrightarrow> r = s) \<and> StringValue r = StringValue s)"

definition reproduces_float :: "real option \<Rightarrow> real option \<Rightarrow> bool" where
  "reproduces_float s r =
     ((explicitly_set_float s \<longrightarrow> r = s) \<and> Float64Value r = Float64Value s)"

definition launch_template_specification_reproduced ::
  "tf_launch_template_specification \<Rightarrow> tf_launch_template_specification \<Rightarrow> bool" where
  "launch_template_specification_reproduced s r =
     (reproduces_string (lt_id s) (lt_id r) \<and>
      reproduces_string (lt_name s) (lt_name r) \<and>
      reproduces_string (lt_version s) (lt_version r))"

definition overrides_reproduced :: "'r tf_overrides \<Rightarrow> 'r tf_overrides \<Rightarrow> bool" where
  "overrides_reproduced s r =
     (reproduces_string (availability_zone s) (availability_zone r) \<and>
      reproduces_string (instance_type s) (instance_type r) \<and>
      reproduces_float (priority s) (priority r) \<and>
      reproduces_string (override_spot_price s) (override_spot_price r) \<and>
      reproduces_string (subnet_id s) (subnet_id r) \<and>
      reproduces_float (weighted_capacity s) (weighted_capacity r))"

text \<open>
  Of \<^verbatim>\<open>launch_template_specification\<close> the mapper sends the first element only (the
  schema allows one); the overrides correspond one to one, in order.
\<close>

definition launch_template_config_reproduced ::
  "'r tf_launch_template_config \<Rightarrow> 'r tf_launch_template_config \<Rightarrow> bool" where
  "launch_template_config_reproduced s r =
     ((case launch_template_specification s of
         Some (Some v # _) \<Rightarrow>
           (case launch_template_specification r of
              Some [Some m] \<Rightarrow> launch_template_specification_reproduced v m
            | _ \<Rightarrow> False)
       | _ \<Rightarrow> launch_template_specification r = None) \<and>
      list_all2 overrides_reproduced (set_members (overrides s)) (set_members (overrides r)))"

text \<open>
  A block written with nothing between its braces: the list that holds it starts with
  \<^verbatim>\<open>nil\<close>. A configuration has no empty block when neither its
  \<^verbatim>\<open>launch_template_specification\<close> nor the \<^verbatim>\<open>instance_requirements\<close> of one of
  its overrides is one.
\<close>

fun empty_block :: "'a option list option \<Rightarrow> bool" where
  "empty_block (Some (None # _)) = True"
| "empty_block _ = False"

definition no_empty_block :: "'r tf_launch_template_config \<Rightarrow> bool" where
  "no_empty_block s =
     (\<not> empty_block (launch_template_specification s) \<and>
      list_all (\<lambda>v. \<not> empty_block (instance_requirements v)) (set_members (overrides s)))"

subsection \<open>A fleet request and a remote service to run the operations on\<close>

definition example_overrides :: "tf_instance_requirements tf_overrides" where
  "example_overrides =
     \<lparr> availability_zone = Some ''us-west-2a'',
       instance_requirements = None,
       instance_type = Some ''m5.large'',
       priority = Some 1,
       override_spot_price = Some ''0.05'',
       subnet_id = Some ''subnet-1'',
       weighted_capacity = Some 2 \<rparr>"

definition example_launch_template_config ::
  "tf_instance_requirements tf_launch_template_config" where
  "example_launch_template_config =
     \<lparr> launch_template_specification =
         Some [Some \<lparr> lt_id = Some ''lt-1'', lt_name = None, lt_version = Some ''1'' \<rparr>],
       overrides = Some [Some example_overrides] \<rparr>"

text \<open>The wire object of that configuration.\<close>

definition example_wire_launch_template_config ::
  "InstanceRequirements LaunchTemplateConfig" where
  "example_wire_launch_template_config =
     \<lparr> LaunchTemplateSpecification =
         Some \<lparr> LaunchTemplateId = Some ''lt-1'', LaunchTemplateName = None,
                Version = Some ''1'' \<rparr>,
       Overrides =
         Some [Some \<lparr> AvailabilityZone = Some ''us-west-2a'',
                      InstanceRequirements = None,
                      InstanceType = Some ''m5.large'',
                      Priority = Some 1,
                      Override_SpotPrice = Some ''0.05'',
                      SubnetId = Some ''subnet-1'',
                      WeightedCapacity = Some 2 \<rparr>] \<rparr>"



text \<open>A launch specification with a root block device, and its wire object.\<close>

definition example_launch_specification :: tf_launch_specification where
  "example_launch_specification =
     \<lparr> ls_ami = ''ami-1'',
       ls_instance_type = ''m5.large'',
       ls_spot_price = ''0.05'',
       ls_availability_zone = None,
       ls_placement_tenancy = None,
       ls_placement_group = None,
       ls_ebs_optimized = None,
       ls_monitoring = None,
       ls_iam_instance_profile = None,
       ls_iam_instance_profile_arn = None,
       ls_user_data = None,
       ls_key_name = None,
       ls_weighted_capacity = None,
       ls_vpc_security_group_ids = None,
       ls_tags = None,
       ls_subnet_id = None,
       ls_associate_public_ip_address = None,
       ls_ebs_block_device = None,
       ls_ephemeral_block_device = None,
       ls_root_block_device =
         Some [\<lparr> root_delete_on_termination = True,
                 root_encrypted = None,
                 root_kms_key_id = None,
                 root_volume_size = Some 8,
                 root_volume_type = Some ''gp3'',
                 root_iops = None,
                 root_throughput = None \<rparr>] \<rparr>"

definition example_wire_launch_specification :: SpotFleetLaunchSpecification where
  "example_wire_launch_specification =
     \<lparr> LS_ImageId = Some ''ami-1'',
       LS_InstanceType = Some ''m5.large'',
       LS_SpotPrice = Some ''0.05'',
       LS_Placement = None,
       LS_EbsOptimized = None,
       LS_Monitoring = None,
       LS_IamInstanceProfile = None,
       LS_UserData = None,
       LS_KeyName = None,
       LS_WeightedCapacity = None,
       LS_SecurityGroups = [],
       LS_TagSpecifications = [],
       LS_SubnetId = None,
       LS_NetworkInterfaces = [],
       LS_BlockDeviceMappings =
         [\<lparr> DeviceName = Some ''/dev/sda1'',
            VirtualName = None,
            Ebs = Some \<lparr> Ebs_DeleteOnTermination = Some True,
                         Ebs_SnapshotId = None,
                         Ebs_Encrypted = None,
                         Ebs_KmsKeyId = None,
                         Ebs_VolumeSize = Some 8,
                         Ebs_VolumeType = Some ''gp3'',
                         Ebs_Iops = None,
                         Ebs_Throughput = None \<rparr> \<rparr>] \<rparr>"

definition example_data :: ResourceData where
  "example_data =
     \<lparr> Id = [],
       IsNewResource = True,
       HasChange = (\<lambda>attr. False),
       allocation_strategy = ''lowestPrice'',
       client_token = [],
       context_attr = [],
       excess_capacity_termination_policy = ''Default'',
       fleet_type = ''maintain'',
       iam_fleet_role = ''arn:aws:iam::1:role/fleet'',
       instance_interruption_behaviour = ''terminate'',
       instance_pools_to_use_count = 1,
       launch_specification = [],
       launch_template_config = [Some example_launch_template_config],
       load_balancers = [],
       on_demand_allocation_strategy = ''lowestPrice'',
       on_demand_max_total_price = [],
       on_demand_target_capacity = 0,
       replace_unhealthy_instances = False,
       spot_maintenance_strategies = [],
       spot_price = [],
       spot_request_state = [],
       target_capacity = 2,
       target_capacity_unit_type = [],
       target_group_arns = [],
       terminate_instances_on_delete = [],
       terminate_instances_with_expiration = True,
       valid_from = [],
       valid_until = [],
       wait_for_fulfillment = False \<rparr>"

definition example_world :: world where
  "example_world = \<lparr> rd = example_data, calls = [], logged = [] \<rparr>"

text \<open>The same request once it exists under the handle \<^verbatim>\<open>sfr-1\<close>.\<close>

definition existing_world :: world where
  "existing_world =
     \<lparr> rd = example_data\<lparr> Id := ''sfr-1'', IsNewResource := False \<rparr>, calls = [], logged = [] \<rparr>"

text \<open>The configuration the remote service holds for that request.\<close>

definition example_remote_config :: SpotFleetRequestConfigData where
  "example_remote_config =
     \<lparr> AllocationStrategy = Some ''lowestPrice'',
       ClientToken = Some ''terraform-1'',
       Context = None,
       ExcessCapacityTerminationPolicy = Some ''Default'',
       IamFleetRole = Some ''arn:aws:iam::1:role/fleet'',
       InstanceInterruptionBehavior = Some ''terminate'',
       InstancePoolsToUseCount = Some 1,
       LaunchSpecifications = [],
       LaunchTemplateConfigs = [Some example_wire_launch_template_config],
       LoadBalancersConfig = None,
       OnDemandAllocationStrategy = Some ''lowestPrice'',
       OnDemandMaxTotalPrice = None,
       OnDemandTargetCapacity = Some 0,
       ReplaceUnhealthyInstances = Some False,
       SpotMaintenanceStrategies = None,
       SpotPrice = None,
       TagSpecifications = [],
       TargetCapacity = Some 2,
       TargetCapacityUnitType = None,
       TerminateInstancesWithExpiration = Some True,
       Type = Some ''maintain'',
       ValidFrom = None,
       ValidUntil = None \<rparr>"

definition example_remote_output :: SpotFleetRequestConfig where
  "example_remote_output =
     \<lparr> SpotFleetRequestState = Some ''active'',
       SpotFleetRequestConfig = example_remote_config,
       Tags = [] \<rparr>"

text \<open>
  A remote service on which every call succeeds. The instances of the fleet are two at
  the first poll, one at the second and none from the third on.
\<close>

definition example_remote :: env where
  "example_remote =
     \<lparr> UniqueId = ''terraform-1'',
       getTagSpecificationsIn = [],
       expandInstanceRequirements = (\<lambda>tfMap. Some ()),
       flattenInstanceRequirements = (\<lambda>apiObject. Some ()),
       ParseFloat = (\<lambda>v. if v = ''2'' then Inr 2 else Inl (OtherError ''invalid syntax'')),
       StringValueToBase64String = (\<lambda>v. Some v),
       launch_specification_Tags = (\<lambda>m. m),
       FetchRootDeviceName_result = (\<lambda>ami. Inr (Some ''/dev/sda1'')),
       launchSpecToMap = (\<lambda>spec rootDeviceName. example_launch_specification),
       launch_specification_Set = (\<lambda>maps. maps),
       RequestSpotFleet_result = (\<lambda>input. Inr (Some ''sfr-1'')),
       WaitSpotFleetRequestCreated_result = (\<lambda>h. None),
       WaitSpotFleetRequestFulfilled_result = (\<lambda>h. None),
       FindSpotFleetRequestByID_result = (\<lambda>h. Inr example_remote_output),
       ModifySpotFleetRequest_result = (\<lambda>input. None),
       WaitSpotFleetRequestUpdated_result = (\<lambda>h. None),
       CancelSpotFleetRequests_result =
         (\<lambda>ids terminate. Inr (Some \<lparr> UnsuccessfulFleetRequests = [] \<rparr>)),
       CancelSpotFleetRequestsError =
         (\<lambda>items. case items of
                     [] \<Rightarrow> None
                   | item # _ \<Rightarrow>
                       Some (AWSErr (StringValue (Item_Code item))
                               (StringValue (Item_Message item)))),
       FindSpotFleetInstances_result =
         (\<lambda>h i. Inr (if i = 0 then [''i-1'', ''i-2''] else if i = 1 then [''i-1''] else [])),
       ValueBool =
         (\<lambda>v. if v = [] then (False, True, None)
              else if v = ''true'' then (True, False, None)
              else (False, False, None)),
       delete_polls = 5 \<rparr>"

text \<open>The request just created, before it is read back.\<close>

definition created_world :: world where
  "created_world =
     \<lparr> rd = example_data\<lparr> Id := ''sfr-1'', IsNewResource := True \<rparr>, calls = [], logged = [] \<rparr>"

text \<open>Worlds whose plan differs from the state that was read last.\<close>

definition retagged_world :: world where
  "retagged_world =
     \<lparr> rd = example_data\<lparr> Id := ''sfr-1'', IsNewResource := False,
                           HasChange := (\<lambda>attr. attr = ''tags'' \<or> attr = ''tags_all'') \<rparr>,
       calls = [], logged = [] \<rparr>"

definition resized_world :: world where
  "resized_world =
     \<lparr> rd = example_data\<lparr> Id := ''sfr-1'', IsNewResource := False, target_capacity := 4,
                           HasChange := (\<lambda>attr. attr = ''target_capacity'') \<rparr>,
       calls = [], logged = [] \<rparr>"

definition replanned_world :: world where
  "replanned_world =
     \<lparr> rd = example_data\<lparr> Id := ''sfr-1'', IsNewResource := False,
                           allocation_strategy := ''diversified'',
                           HasChange := (\<lambda>attr. attr = ''allocation_strategy'') \<rparr>,
       calls = [], logged = [] \<rparr>"


text \<open>
  Requests of type \<^verbatim>\<open>request\<close> with a maintenance strategies block: an empty one,
  and one that asks for capacity rebalancing, on a fleet of launch specifications.
\<close>

definition empty_block_world :: world where
  "empty_block_world =
     \<lparr> rd = example_data\<lparr> fleet_type := ''request'', spot_maintenance_strategies := [None] \<rparr>,
       calls = [], logged = [] \<rparr>"

definition empty_block_config :: SpotFleetRequestConfigData where
  "empty_block_config =
     spotFleetConfig_of example_remote (rd empty_block_world) []
       [Some example_wire_launch_template_config]"

definition example_maintenance_strategies :: tf_spot_maintenance_strategies where
  "example_maintenance_strategies =
     \<lparr> capacity_rebalance = [Some \<lparr> replacement_strategy = Some ''launch'' \<rparr>] \<rparr>"

definition rebalance_world :: world where
  "rebalance_world =
     \<lparr> rd = example_data\<lparr> fleet_type := ''request'',
            launch_specification := [example_launch_specification],
            launch_template_config := [],
            spot_maintenance_strategies := [Some example_maintenance_strategies] \<rparr>,
       calls = [], logged = [] \<rparr>"



text \<open>
  Remote services that answer differently at one place: the fleet request is already gone
  when it is cancelled; the wait after the create times out; the fleet request is not found
  when it is read; the fleet request was made of one launch specification; the second poll
  of the instances answers that the fleet request is not found; every poll of the
  instances still finds one, and the timeout allows two polls.
\<close>

definition gone_remote :: env where
  "gone_remote =
     example_remote\<lparr> CancelSpotFleetRequests_result :=
       (\<lambda>ids terminate. Inr (Some \<lparr> UnsuccessfulFleetRequests =
          [\<lparr> Item_Code = Some ''fleetRequestIdDoesNotExist'',
             Item_Message = Some ''The spot fleet request ID does not exist'',
             Item_SpotFleetRequestId = Some ''sfr-1'' \<rparr>] \<rparr>)) \<rparr>"

definition slow_remote :: env where
  "slow_remote = example_remote\<lparr> WaitSpotFleetRequestCreated_result := (\<lambda>h. Some TimeoutError) \<rparr>"

definition slow_config :: SpotFleetRequestConfigData where
  "slow_config =
     spotFleetConfig_of slow_remote example_data [] [Some example_wire_launch_template_config]"

definition absent_remote :: env where
  "absent_remote = example_remote\<lparr> FindSpotFleetRequestByID_result := (\<lambda>h. Inl NotFoundError) \<rparr>"

definition legacy_remote_output :: SpotFleetRequestConfig where
  "legacy_remote_output =
     \<lparr> SpotFleetRequestState = Some ''active'',
       SpotFleetRequestConfig =
         example_remote_config\<lparr> LaunchSpecifications := [example_wire_launch_specification],
                                 LaunchTemplateConfigs := [] \<rparr>,
       Tags = [] \<rparr>"

definition legacy_remote :: env where
  "legacy_remote =
     example_remote\<lparr> FindSpotFleetRequestByID_result := (\<lambda>h. Inr legacy_remote_output) \<rparr>"

definition unknown_remote :: env where
  "unknown_remote =
     example_remote\<lparr> FindSpotFleetInstances_result :=
       (\<lambda>h i. if i = 0 then Inr [''i-1''] else Inl NotFoundError) \<rparr>"

definition busy_remote :: env where
  "busy_remote =
     example_remote\<lparr> FindSpotFleetInstances_result := (\<lambda>h i. Inr [''i-1'']),
                      delete_polls := 2 \<rparr>"


section \<open>Properties\<close>

subsection \<open>The field mapper\<close>

lemma reproduces_nonempty_string:
  "reproduces_string s (map_option (\<lambda>v. StringValue (Some v)) (nonempty_string s))"
  by (cases s) (simp_all add: reproduces_string_def explicitly_set_string_def
      nonempty_string_def StringValue_def)

lemma reproduces_nonzero_float:
  "reproduces_float s (map_option (\<lambda>v. Float64Value (Some v)) (nonzero_float s))"
  by (cases s) (simp_all add: reproduces_float_def explicitly_set_float_def
      nonzero_float_def Float64Value_def)

lemma first_block_Panics: "first_block v = Panics \<longleftrightarrow> empty_block v"
  by (cases v rule: first_block.cases) simp_all

lemma overrides_round_trip:
  assumes "expandLaunchTemplateOverrides eir (Some s) = Returns a"
  shows "\<exists>r. flattenLaunchTemplateOverrides fir a = Some r \<and> overrides_reproduced s r"
  using assms
  by (auto simp add: overrides_reproduced_def reproduces_nonempty_string
      reproduces_nonzero_float split: outcome.splits)

lemma overrideses_round_trip:
  "expandLaunchTemplateOverrideses eir xs = Returns as \<Longrightarrow>
   \<exists>rs. flattenLaunchTemplateOverrideses fir as = map Some rs
        \<and> list_all2 overrides_reproduced (somes xs) rs"
proof (induction xs arbitrary: as)
  case Nil
  then show ?case by simp
next
  case (Cons x xs)
  show ?case
  proof (cases x)
    case None
    with Cons show ?thesis by simp
  next
    case (Some s)
    from Cons.prems Some obtain a bs where
      a: "expandLaunchTemplateOverrides eir (Some s) = Returns (Some a)"
      and bs: "expandLaunchTemplateOverrideses eir xs = Returns bs"
      and as: "as = Some a # bs"
      by (auto split: outcome.splits option.splits)
    obtain r where r: "flattenLaunchTemplateOverrides fir (Some a) = Some r"
      "overrides_reproduced s r"
      using overrides_round_trip [OF a] by blast
    obtain rs where rs: "flattenLaunchTemplateOverrideses fir bs = map Some rs"
      "list_all2 overrides_reproduced (somes xs) rs"
      using Cons.IH [OF bs] by blast
    have "flattenLaunchTemplateOverrideses fir as = map Some (r # rs)"
      using as r(1) rs(1) by simp
    moreover have "list_all2 overrides_reproduced (somes (x # xs)) (r # rs)"
      using Some r(2) rs(2) by simp
    ultimately show ?thesis by blast
  qed
qed

lemma somes_map_Some: "somes (map Some rs) = rs"
  by (induction rs) simp_all

lemma config_round_trip:
  assumes "expandLaunchTemplateConfig eir (Some s) = Returns a"
  shows "\<exists>r. flattenLaunchTemplateConfig fir a = Some r \<and> launch_template_config_reproduced s r"
proof -
  from assms obtain v bs where
    v: "first_block (launch_template_specification s) = Returns v"
    and bs: "(case overrides s of
                Some v \<Rightarrow> if length v > 0
                          then expandLaunchTemplateOverrideses eir v else Returns []
              | None \<Rightarrow> Returns []) = Returns bs"
    and a: "a = Some \<lparr> LaunchTemplateSpecification =
                     (case v of
                        None \<Rightarrow> None
                      | Some m \<Rightarrow> expandFleetLaunchTemplateSpecification (Some m)),
                   Overrides = appended bs \<rparr>"
    by (auto split: outcome.splits)
  obtain r where r: "flattenLaunchTemplateConfig fir a = Some r"
    unfolding a by simp
  have A: "launch_template_specification r =
      map_option
        (\<lambda>v. [flattenFleetLaunchTemplateSpecificationForSpotFleetRequest (Some v)])
        (case v of None \<Rightarrow> None | Some m \<Rightarrow> expandFleetLaunchTemplateSpecification (Some m))"
    using r unfolding a by auto
  have B: "overrides r = map_option (flattenLaunchTemplateOverrideses fir) (appended bs)"
    using r unfolding a by auto
  have lts: "(case launch_template_specification s of
         Some (Some v # _) \<Rightarrow>
           (case launch_template_specification r of
              Some [Some m] \<Rightarrow> launch_template_specification_reproduced v m
            | _ \<Rightarrow> False)
       | _ \<Rightarrow> launch_template_specification r = None)"
    using v unfolding A
    by (cases "launch_template_specification s" rule: first_block.cases)
       (auto simp add: launch_template_specification_reproduced_def reproduces_nonempty_string)
  have ovs: "list_all2 overrides_reproduced (set_members (overrides s)) (set_members (overrides r))"
  proof (cases "overrides s")
    case None
    with bs have "bs = []" by simp
    with None show ?thesis unfolding B by (simp add: set_members_def appended_def)
  next
    case (Some xs)
    show ?thesis
    proof (cases "xs = []")
      case True
      with bs Some have "bs = []" by simp
      with Some True show ?thesis unfolding B by (simp add: set_members_def appended_def)
    next
      case False
      with bs Some have e: "expandLaunchTemplateOverrideses eir xs = Returns bs" by simp
      obtain rs where rs: "flattenLaunchTemplateOverrideses fir bs = map Some rs"
        "list_all2 overrides_reproduced (somes xs) rs"
        using overrideses_round_trip [OF e] by blast
      show ?thesis
      proof (cases "bs = []")
        case True
        with rs have "rs = []" by simp
        with rs(2) True Some show ?thesis unfolding B by (simp add: set_members_def appended_def)
      next
        case False
        with rs Some show ?thesis
          unfolding B by (simp add: set_members_def appended_def somes_map_Some)
      qed
    qed
  qed
  show ?thesis
    using r lts ovs unfolding launch_template_config_reproduced_def by blast
qed

lemma configs_round_trip:
  "expandLaunchTemplateConfigs eir tfList = Returns apiObjects \<Longrightarrow>
   \<exists>rs. flattenLaunchTemplateConfigs fir apiObjects = map Some rs
        \<and> list_all2 launch_template_config_reproduced (somes tfList) rs"
proof (induction tfList arbitrary: apiObjects)
  case Nil
  then show ?case by simp
next
  case (Cons x xs)
  show ?case
  proof (cases x)
    case None
    with Cons show ?thesis by simp
  next
    case (Some s)
    from Cons.prems Some obtain a bs where
      a: "expandLaunchTemplateConfig eir (Some s) = Returns (Some a)"
      and bs: "expandLaunchTemplateConfigs eir xs = Returns bs"
      and as: "apiObjects = Some a # bs"
      by (auto split: outcome.splits option.splits)
    obtain r where r: "flattenLaunchTemplateConfig fir (Some a) = Some r"
      "launch_template_config_reproduced s r"
      using config_round_trip [OF a] by blast
    obtain rs where rs: "flattenLaunchTemplateConfigs fir bs = map Some rs"
      "list_all2 launch_template_config_reproduced (somes xs) rs"
      using Cons.IH [OF bs] by blast
    have "flattenLaunchTemplateConfigs fir apiObjects = map Some (r # rs)"
      using as r(1) rs(1) by simp
    moreover have "list_all2 launch_template_config_reproduced (somes (x # xs)) (r # rs)"
      using Some r(2) rs(2) by simp
    ultimately show ?thesis by blast
  qed
qed

lemma overrideses_return:
  "list_all (\<lambda>v. \<not> empty_block (instance_requirements v)) (somes xs) \<Longrightarrow>
   \<exists>as. expandLaunchTemplateOverrideses eir xs = Returns as"
proof (induction xs)
  case Nil
  show ?case by simp
next
  case (Cons x xs)
  show ?case
  proof (cases x)
    case None
    with Cons show ?thesis by simp
  next
    case (Some s)
    with Cons.prems have "first_block (instance_requirements s) \<noteq> Panics"
      by (simp add: first_block_Panics)
    then obtain v where v: "first_block (instance_requirements s) = Returns v"
      by (cases "first_block (instance_requirements s)") auto
    from Cons Some obtain as where "expandLaunchTemplateOverrideses eir xs = Returns as"
      by auto
    with Some v show ?thesis by simp
  qed
qed

lemma config_returns:
  assumes "no_empty_block s"
  shows "\<exists>a. expandLaunchTemplateConfig eir (Some s) = Returns (Some a)"
proof -
  from assms have "first_block (launch_template_specification s) \<noteq> Panics"
    by (simp add: first_block_Panics no_empty_block_def)
  then obtain v where v: "first_block (launch_template_specification s) = Returns v"
    by (cases "first_block (launch_template_specification s)") auto
  have "\<exists>bs. (case overrides s of
                Some v \<Rightarrow> if length v > 0
                          then expandLaunchTemplateOverrideses eir v else Returns []
              | None \<Rightarrow> Returns []) = Returns bs"
  proof (cases "overrides s")
    case None
    then show ?thesis by simp
  next
    case (Some xs)
    with assms have "list_all (\<lambda>v. \<not> empty_block (instance_requirements v)) (somes xs)"
      by (simp add: no_empty_block_def set_members_def)
    from overrideses_return [OF this] Some show ?thesis by auto
  qed
  with v show ?thesis by auto
qed

lemma configs_return:
  "list_all no_empty_block (somes tfList) \<Longrightarrow>
   \<exists>apiObjects. expandLaunchTemplateConfigs eir tfList = Returns apiObjects"
proof (induction tfList)
  case Nil
  show ?case by simp
next
  case (Cons x xs)
  show ?case
  proof (cases x)
    case None
    with Cons show ?thesis by simp
  next
    case (Some s)
    with Cons.prems obtain a where "expandLaunchTemplateConfig eir (Some s) = Returns (Some a)"
      using config_returns by fastforce
    moreover from Cons Some obtain bs where "expandLaunchTemplateConfigs eir xs = Returns bs"
      by auto
    ultimately show ?thesis using Some by simp
  qed
qed

text \<open>
  Where no block is empty the mapper is a near-inverse: the expansion returns, and
  flattening the wire objects gives one configuration for each configuration of the
  list, in order; in each, every field set explicitly (launch template id, name and
  version; each override's availability zone, instance type, priority, spot price, subnet
  id and weighted capacity) comes back as it was set.
\<close>

lemma launch_template_config_round_trip:
  assumes "list_all no_empty_block (somes tfList)"
  shows "\<exists>apiObjects rs.
           expandLaunchTemplateConfigs eir tfList = Returns apiObjects \<and>
           flattenLaunchTemplateConfigs fir apiObjects = map Some rs \<and>
           list_all2 launch_template_config_reproduced (somes tfList) rs"
  using configs_return [OF assms] configs_round_trip by blast

lemma example_expansion:
  "expandLaunchTemplateConfigs eir [Some example_launch_template_config] =
     Returns [Some example_wire_launch_template_config]"
  by (simp add: example_launch_template_config_def example_overrides_def
      example_wire_launch_template_config_def nonempty_string_def nonzero_float_def
      appended_def)





subsection \<open>Calls and diagnostics of the operations\<close>

lemma launchSpecsToMaps_lookups:
  "snd (launchSpecsToMaps env launchSpecs) =
     map Call_FetchRootDeviceName
       (looked_up env (map (\<lambda>spec. StringValue (LS_ImageId spec)) launchSpecs))"
  by (induction launchSpecs) (auto split: sum.splits prod.splits)

lemma launchSpecsToSet_lookups:
  "snd (launchSpecsToSet env launchSpecs) =
     map Call_FetchRootDeviceName
       (looked_up env (map (\<lambda>spec. StringValue (LS_ImageId spec)) launchSpecs))"
  using launchSpecsToMaps_lookups [of env launchSpecs]
  by (auto simp add: launchSpecsToSet_def split: prod.splits sum.splits)

lemma Read_lookups_are_lookups: "list_all is_lookup (Read_lookups env d)"
  by (auto simp add: Read_lookups_def list_all_iff split: sum.splits)

lemma Read_calls:
  "calls (snd (resourceSpotFleetRequestRead env w)) =
     calls w @ Call_FindSpotFleetRequestByID (Id (rd w)) # Read_lookups env (rd w)"
proof (cases "FindSpotFleetRequestByID_result env (Id (rd w))")
  case (Inl err)
  then show ?thesis
    by (simp add: resourceSpotFleetRequestRead_def Read_lookups_def called_def log_Printf_def
        SetId_def Let_def)
next
  case (Inr out)
  obtain r ls where
    l: "launchSpecsToSet env (LaunchSpecifications (SpotFleetRequestConfig out)) = (r, ls)"
    by (cases "launchSpecsToSet env (LaunchSpecifications (SpotFleetRequestConfig out))")
  have ls: "ls = map Call_FetchRootDeviceName
       (looked_up env
          (map (\<lambda>spec. StringValue (LS_ImageId spec))
             (LaunchSpecifications (SpotFleetRequestConfig out))))"
    using launchSpecsToSet_lookups
      [of env "LaunchSpecifications (SpotFleetRequestConfig out)"] l by simp
  show ?thesis
    using Inr l ls
    by (cases r)
       (simp_all add: resourceSpotFleetRequestRead_def Read_lookups_def called_def
          called_all_def Let_def)
qed

lemma Read_refreshes:
  assumes "FindSpotFleetRequestByID_result env (Id (rd w)) = Inr output"
    and "fst (launchSpecsToSet env (LaunchSpecifications (SpotFleetRequestConfig output)))
           = Inr launchSpec"
  shows "fst (resourceSpotFleetRequestRead env w) = [] \<and>
         refreshed env output launchSpec (rd w) (rd (snd (resourceSpotFleetRequestRead env w)))"
proof -
  obtain ls where
    l: "launchSpecsToSet env (LaunchSpecifications (SpotFleetRequestConfig output))
          = (Inr launchSpec, ls)"
    using assms(2)
    by (cases "launchSpecsToSet env (LaunchSpecifications (SpotFleetRequestConfig output))")
       auto
  have r: "resourceSpotFleetRequestRead env w =
        ([], (called_all ls (called (Call_FindSpotFleetRequestByID (Id (rd w))) w))
               \<lparr> rd := read_more_attributes env (SpotFleetRequestConfig output) launchSpec
                         (read_attributes output (rd w)) \<rparr>)"
    using assms(1) l
    by (simp add: resourceSpotFleetRequestRead_def called_def called_all_def Let_def)
  have "refreshed env output launchSpec (rd w)
          (read_more_attributes env (SpotFleetRequestConfig output) launchSpec
             (read_attributes output (rd w)))"
    by (simp add: refreshed_def read_attributes_def read_more_attributes_def Let_def
        split: option.splits)
  then show ?thesis
    unfolding r by simp
qed

lemma append_Read_nil: "append_Read [] env w = resourceSpotFleetRequestRead env w"
  by (simp add: append_Read_def)

lemma Update_issued:
  "issued w (resourceSpotFleetRequestUpdate env w) =
     (if HasChangesExcept (rd w) [''tags'', ''tags_all'']
      then Call_ModifySpotFleetRequest (modify_input (rd w)) #
           (case ModifySpotFleetRequest_result env (modify_input (rd w)) of
              Some err \<Rightarrow> []
            | None \<Rightarrow>
                Call_WaitSpotFleetRequestUpdated (Id (rd w)) #
                (case WaitSpotFleetRequestUpdated_result env (Id (rd w)) of
                   Some err \<Rightarrow> []
                 | None \<Rightarrow>
                     Call_FindSpotFleetRequestByID (Id (rd w)) # Read_lookups env (rd w)))
      else Call_FindSpotFleetRequestByID (Id (rd w)) # Read_lookups env (rd w))"
  by (simp add: resourceSpotFleetRequestUpdate_def issued_def append_Read_nil Read_calls
      called_def Let_def split: option.splits)

lemma create_request_issued_first:
  "\<exists>rest. issued w (create_request env spotFleetConfig w) =
            Call_RequestSpotFleet spotFleetConfig # rest"
  by (simp add: create_request_def issued_def called_def SetId_def AppendErrorf_def
      append_Read_def Read_calls Let_def split: sum.splits option.splits)

lemma Read_Id_new:
  assumes "IsNewResource (rd w)"
  shows "Id (rd (snd (resourceSpotFleetRequestRead env w))) = Id (rd w)"
proof (cases "FindSpotFleetRequestByID_result env (Id (rd w))")
  case (Inl err)
  with assms show ?thesis
    by (simp add: resourceSpotFleetRequestRead_def called_def Let_def)
next
  case (Inr out)
  obtain r ls where
    l: "launchSpecsToSet env (LaunchSpecifications (SpotFleetRequestConfig out)) = (r, ls)"
    by (cases "launchSpecsToSet env (LaunchSpecifications (SpotFleetRequestConfig out))")
  show ?thesis
  proof (cases r)
    case (Inl err)
    with Inr l show ?thesis
      by (simp add: resourceSpotFleetRequestRead_def called_def called_all_def
          read_attributes_def Let_def)
  next
    case (Inr launchSpec)
    with \<open>FindSpotFleetRequestByID_result env (Id (rd w)) = Inr out\<close> l
    have "refreshed env out launchSpec (rd w)
            (rd (snd (resourceSpotFleetRequestRead env w)))"
      using Read_refreshes [of env w out launchSpec] by simp
    then show ?thesis by (simp add: refreshed_def)
  qed
qed

lemma create_request_Id_new:
  assumes "RequestSpotFleet_result env spotFleetConfig = Inr h" and "IsNewResource (rd w)"
  shows "Id (rd (snd (create_request env spotFleetConfig w))) = StringValue h"
  using assms
  by (simp add: create_request_def called_def SetId_def AppendErrorf_def
      append_Read_def Read_Id_new Let_def split: sum.splits option.splits)

lemma create_request_wait_error:
  assumes "RequestSpotFleet_result env spotFleetConfig = Inr h"
    and "WaitSpotFleetRequestCreated_result env (StringValue h) = Some err"
  shows "create_request env spotFleetConfig w =
           ([Diagnostic Error ''waiting for EC2 Spot Fleet Request create'' err],
            called (Call_WaitSpotFleetRequestCreated (StringValue h))
              (SetId (StringValue h) (called (Call_RequestSpotFleet spotFleetConfig) w)))"
  using assms
  by (simp add: create_request_def SetId_def called_def AppendErrorf_def Let_def)

lemma root_block_device_mappings_lookups:
  "list_all is_lookup (snd (root_block_device_mappings env ami vL blockDevices))"
  by (induction vL arbitrary: blockDevices)
     (auto split: sum.splits option.splits prod.splits, metis snd_conv)

lemma readSpotFleetBlockDeviceMappingsFromConfig_lookups:
  "list_all is_lookup (snd (readSpotFleetBlockDeviceMappingsFromConfig env d))"
  by (simp add: readSpotFleetBlockDeviceMappingsFromConfig_def Let_def
      root_block_device_mappings_lookups split: option.splits)

lemma buildSpotFleetLaunchSpecification_lookups:
  "list_all is_lookup (snd (buildSpotFleetLaunchSpecification env d))"
  using readSpotFleetBlockDeviceMappingsFromConfig_lookups [of env d]
  by (auto simp add: buildSpotFleetLaunchSpecification_def
      split: sum.splits option.splits prod.splits)

lemma buildSpotFleetLaunchSpecifications_lookups:
  "list_all is_lookup (snd (buildSpotFleetLaunchSpecifications env userSpecs))"
proof (induction userSpecs)
  case Nil
  show ?case by simp
next
  case (Cons userSpec userSpecs)
  with buildSpotFleetLaunchSpecification_lookups [of env userSpec] show ?case
    by (auto split: sum.splits prod.splits)
qed

lemma create_launch_specifications_lookups:
  "list_all is_lookup (snd (create_launch_specifications env d))"
  by (simp add: create_launch_specifications_def buildSpotFleetLaunchSpecifications_lookups)

lemma create_config_world:
  assumes "create_config env w = Returns (Inr (spotFleetConfig, w1))"
  shows "w1 = called_all (snd (create_launch_specifications env (rd w))) w"
  using assms
  by (auto simp add: create_config_def Let_def
      split: prod.splits sum.splits outcome.splits if_splits)


lemma Delete_wait:
  assumes "terminateInstances env (rd w)" and "cancel_error env (rd w) = None"
  shows "fst (resourceSpotFleetRequestDelete env w) =
           (case fst (RetryUntilNotFound (delete_polls env) (poll_instances env (rd w)) 0) of
              None \<Rightarrow> []
            | Some e \<Rightarrow>
                [Diagnostic Error
                   ''waiting for EC2 Spot Fleet Request active instance count to reach 0'' e])"
  using assms
  by (simp add: resourceSpotFleetRequestDelete_def AppendErrorf_def Let_def
      split: prod.splits option.splits)

lemma RetryUntilNotFound_timeout:
  "(\<forall>k<n. \<exists>v. f (i + k) = Inr v) \<Longrightarrow>
   RetryUntilNotFound n f i = (Some TimeoutError, i + n)"
proof (induction n arbitrary: i)
  case 0
  show ?case by simp
next
  case (Suc n)
  from Suc.prems obtain v where v: "f i = Inr v"
    by (metis add.right_neutral zero_less_Suc)
  have "\<forall>k<n. \<exists>v. f (Suc i + k) = Inr v"
    using Suc.prems by (metis Suc_less_eq add_Suc_shift)
  from Suc.IH [OF this] v show ?case by simp
qed

lemma RetryUntilNotFound_stops:
  "k < n \<Longrightarrow> f (i + k) = Inl e \<Longrightarrow> (\<forall>j<k. \<exists>v. f (i + j) = Inr v) \<Longrightarrow>
   RetryUntilNotFound n f i = (if NotFound (Some e) then None else Some e, Suc (i + k))"
proof (induction n arbitrary: i k)
  case 0
  then show ?case by simp
next
  case (Suc n)
  note prems = Suc.prems and IH = Suc.IH
  show ?case
  proof (cases k)
    case 0
    with prems show ?thesis by simp
  next
    case (Suc k')
    from prems(3) Suc obtain v where v: "f i = Inr v"
      by (metis add.right_neutral zero_less_Suc)
    have a: "k' < n" using prems(1) Suc by simp
    have b: "f (Suc i + k') = Inl e" using prems(2) Suc by simp
    have c: "\<forall>j<k'. \<exists>v. f (Suc i + j) = Inr v"
      using prems(3) Suc by (metis Suc_less_eq add_Suc_shift)
    from IH [OF a b c] v Suc show ?thesis by simp
  qed
qed

lemma first_stop:
  fixes n :: nat
  assumes "\<not> (\<forall>k<n. \<exists>v. f k = Inr v)"
  shows "\<exists>k e. k < n \<and> f k = Inl e \<and> (\<forall>j<k. \<exists>v. f j = Inr v)"
proof -
  define P where "P k \<longleftrightarrow> k < n \<and> (\<nexists>v. f k = Inr v)" for k
  from assms have "\<exists>k. P k" unfolding P_def by blast
  then obtain k where k: "P k" "\<And>j. j < k \<Longrightarrow> \<not> P j"
    using exists_least_iff [of P] by blast
  from k(1) obtain e where e: "f k = Inl e"
    unfolding P_def by (cases "f k") auto
  have "\<forall>j<k. \<exists>v. f j = Inr v"
  proof (intro allI impI)
    fix j assume "j < k"
    with k(2) have "\<not> P j" by blast
    moreover from \<open>j < k\<close> k(1) have "j < n" unfolding P_def by simp
    ultimately show "\<exists>v. f j = Inr v" unfolding P_def by blast
  qed
  with k(1) e show ?thesis unfolding P_def by blast
qed

lemma poll_instances_Inr:
  "(\<exists>v. poll_instances env d k = Inr v) \<longleftrightarrow>
   poll_finds_instances (FindSpotFleetInstances_result env (Id d) k)"
  by (auto simp add: poll_instances_def poll_finds_instances_def split: sum.splits)

lemma poll_instances_NotFound:
  "(\<exists>e. poll_instances env d k = Inl e \<and> NotFound (Some e)) \<longleftrightarrow>
   poll_finds_none (FindSpotFleetInstances_result env (Id d) k)"
  by (auto simp add: poll_instances_def poll_finds_none_def split: sum.splits)

lemma poll_instances_Inl:
  "FindSpotFleetInstances_result env (Id d) k = Inl e \<Longrightarrow> poll_instances env d k = Inl e"
  by (simp add: poll_instances_def)



lemma ForceNew_HasChangesExcept:
  "ForceNew attr \<Longrightarrow> HasChange d attr \<Longrightarrow> HasChangesExcept d [''tags'', ''tags_all'']"
  unfolding ForceNew_def HasChangesExcept_def Schema_def list_ex_iff
  by auto

lemma ForceNew_allocation_strategy: "ForceNew ''allocation_strategy''"
  by (simp add: ForceNew_def Schema_def)

lemma resized_HasChangesExcept: "HasChangesExcept (rd resized_world) [''tags'', ''tags_all'']"
  by (simp add: HasChangesExcept_def Schema_def resized_world_def)

lemma replanned_HasChangesExcept: "HasChangesExcept (rd replanned_world) [''tags'', ''tags_all'']"
  by (simp add: HasChangesExcept_def Schema_def replanned_world_def)

lemma example_Read_lookups: "Read_lookups example_remote d = []"
  by (simp add: Read_lookups_def example_remote_def example_remote_output_def
      example_remote_config_def)

lemma create_config_template:
  assumes "launch_specification (rd w) = []"
    and "launch_template_config (rd w) = [Some example_launch_template_config]"
    and "fleet_type (rd w) = ''maintain'' \<or>
         expandSpotMaintenanceStrategies (spot_maintenance_strategies (rd w)) = None"
  shows "create_config env w =
           Returns (Inr (spotFleetConfig_of env (rd w) []
                           [Some example_wire_launch_template_config], w))"
proof -
  have l: "create_launch_specifications env (rd w) = (Inr [], [])"
    using assms(1) by (simp add: create_launch_specifications_def)
  have e: "expandLaunchTemplateConfigs (expandInstanceRequirements env)
             (launch_template_config (rd w)) = Returns [Some example_wire_launch_template_config]"
    unfolding assms(2) by (rule example_expansion)
  have n: "launch_template_config (rd w) \<noteq> []"
    unfolding assms(2) by simp
  have s: "fleet_type (rd w) = ''maintain'' \<or>
           SpotMaintenanceStrategies
             (spotFleetConfig_of env (rd w) [] [Some example_wire_launch_template_config]) = None"
    using assms(3) by (auto simp add: spotFleetConfig_of_def)
  have w: "called_all [] w = w" by (simp add: called_all_def)
  show ?thesis
    unfolding create_config_def l
    using s by (auto simp add: Let_def w e n)
qed

subsection \<open>Create\<close>

text \<open>
  C2, as stated, fails: the remote create succeeds with the handle \<^verbatim>\<open>sfr-1\<close> and the
  wait for the created state times out; Create keeps the handle, and what it returns is an
  error diagnostic and no warning.
\<close>

theorem Create_wait_timeout_counterexample:
  "create_config slow_remote example_world = Returns (Inr (slow_config, example_world)) \<and>
   RequestSpotFleet_result slow_remote slow_config = Inr (Some ''sfr-1'') \<and>
   WaitSpotFleetRequestCreated_result slow_remote ''sfr-1'' = Some TimeoutError \<and>
   resourceSpotFleetRequestCreate slow_remote example_world =
     Returns ([Diagnostic Error ''waiting for EC2 Spot Fleet Request create'' TimeoutError],
              \<lparr> rd = example_data\<lparr> Id := ''sfr-1'' \<rparr>,
                calls = [Call_RequestSpotFleet slow_config,
                         Call_WaitSpotFleetRequestCreated ''sfr-1''],
                logged = [] \<rparr>) \<and>
   HasError [Diagnostic Error ''waiting for EC2 Spot Fleet Request create'' TimeoutError] \<and>
   \<not> HasWarning [Diagnostic Error ''waiting for EC2 Spot Fleet Request create'' TimeoutError]"
proof -
  have a: "create_config slow_remote example_world = Returns (Inr (slow_config, example_world))"
    unfolding slow_config_def
    using create_config_template [of example_world slow_remote]
    by (simp add: example_world_def example_data_def)
  have b: "RequestSpotFleet_result slow_remote slow_config = Inr (Some ''sfr-1'')"
    by (simp add: slow_remote_def example_remote_def)
  have c: "WaitSpotFleetRequestCreated_result slow_remote (StringValue (Some ''sfr-1''))
             = Some TimeoutError"
    by (simp add: slow_remote_def example_remote_def)
  have "resourceSpotFleetRequestCreate slow_remote example_world =
          Returns ([Diagnostic Error ''waiting for EC2 Spot Fleet Request create'' TimeoutError],
            called (Call_WaitSpotFleetRequestCreated (StringValue (Some ''sfr-1'')))
              (SetId (StringValue (Some ''sfr-1''))
                 (called (Call_RequestSpotFleet slow_config) example_world)))"
    unfolding resourceSpotFleetRequestCreate_def a using create_request_wait_error [OF b c]
    by simp
  then show ?thesis
    using a b c
    by (simp add: SetId_def called_def StringValue_def HasError_def HasWarning_def
        example_world_def)
qed

text \<open>
  C2, amended. For every Create call in which the remote create succeeds and the wait for
  the created state then fails (a timeout is one such failure), Create has stored the
  assigned handle and returns exactly one diagnostic, of severity error, that wraps the
  failure of the wait; after the lookups made while the launch specifications were built
  its calls are the create request and the wait, so the request is not read back.
\<close>

theorem Create_wait_error:
  assumes "create_config env w = Returns (Inr (spotFleetConfig, w1))"
    and "RequestSpotFleet_result env spotFleetConfig = Inr h"
    and "WaitSpotFleetRequestCreated_result env (StringValue h) = Some err"
  shows "\<exists>result.
           resourceSpotFleetRequestCreate env w = Returns result \<and>
           Id (rd (snd result)) = StringValue h \<and>
           fst result = [Diagnostic Error ''waiting for EC2 Spot Fleet Request create'' err] \<and>
           issued w result =
             snd (create_launch_specifications env (rd w)) @
             [Call_RequestSpotFleet spotFleetConfig,
              Call_WaitSpotFleetRequestCreated (StringValue h)]"
  using assms(1) create_request_wait_error [OF assms(2,3), of w1]
    create_config_world [OF assms(1)]
  by (simp add: resourceSpotFleetRequestCreate_def SetId_def called_def called_all_def
      issued_def)

theorem Create_wait_error_witness:
  "create_config slow_remote example_world = Returns (Inr (slow_config, example_world)) \<and>
   RequestSpotFleet_result slow_remote slow_config = Inr (Some ''sfr-1'') \<and>
   WaitSpotFleetRequestCreated_result slow_remote (StringValue (Some ''sfr-1''))
     = Some TimeoutError \<and>
   (\<exists>result.
      resourceSpotFleetRequestCreate slow_remote example_world = Returns result \<and>
      Id (rd (snd result)) = ''sfr-1'' \<and>
      fst result = [Diagnostic Error ''waiting for EC2 Spot Fleet Request create'' TimeoutError] \<and>
      issued example_world result =
        [Call_RequestSpotFleet slow_config, Call_WaitSpotFleetRequestCreated ''sfr-1''])"
proof -
  have a: "create_config slow_remote example_world = Returns (Inr (slow_config, example_world))"
    unfolding slow_config_def
    using create_config_template [of example_world slow_remote]
    by (simp add: example_world_def example_data_def)
  have b: "RequestSpotFleet_result slow_remote slow_config = Inr (Some ''sfr-1'')"
    by (simp add: slow_remote_def example_remote_def)
  have c: "WaitSpotFleetRequestCreated_result slow_remote (StringValue (Some ''sfr-1''))
             = Some TimeoutError"
    by (simp add: slow_remote_def example_remote_def)
  have l: "snd (create_launch_specifications slow_remote (rd example_world)) = []"
    by (simp add: create_launch_specifications_def example_world_def example_data_def)
  have s: "StringValue (Some ''sfr-1'') = ''sfr-1''" by (simp add: StringValue_def)
  show ?thesis
    using a b c Create_wait_error [OF a b c, unfolded l s] by simp
qed

text \<open>
  C9, as stated, fails: the plan sets \<^verbatim>\<open>spot_maintenance_strategies\<close> to an empty
  block and the fleet type is \<^verbatim>\<open>request\<close>; the block expands to \<^verbatim>\<open>nil\<close>, so
  Create sends the request to the remote service and stores the handle it assigns.
\<close>

theorem Create_maintenance_strategies_counterexample:
  "spot_maintenance_strategies (rd empty_block_world) \<noteq> [] \<and>
   fleet_type (rd empty_block_world) \<noteq> ''maintain'' \<and>
   resourceSpotFleetRequestCreate example_remote empty_block_world =
     Returns (create_request example_remote empty_block_config empty_block_world) \<and>
   hd (issued empty_block_world
         (create_request example_remote empty_block_config empty_block_world))
     = Call_RequestSpotFleet empty_block_config \<and>
   Id (rd (snd (create_request example_remote empty_block_config empty_block_world))) = ''sfr-1''"
proof -
  have a: "create_config example_remote empty_block_world =
             Returns (Inr (empty_block_config, empty_block_world))"
    unfolding empty_block_config_def
    using create_config_template [of empty_block_world example_remote]
    by (simp add: empty_block_world_def example_data_def)
  have c: "resourceSpotFleetRequestCreate example_remote empty_block_world =
             Returns (create_request example_remote empty_block_config empty_block_world)"
    by (simp add: resourceSpotFleetRequestCreate_def a)
  have r: "RequestSpotFleet_result example_remote empty_block_config = Inr (Some ''sfr-1'')"
    by (simp add: example_remote_def)
  have n: "IsNewResource (rd empty_block_world)"
    by (simp add: empty_block_world_def example_data_def)
  have "Id (rd (snd (create_request example_remote empty_block_config empty_block_world)))
          = ''sfr-1''"
    using create_request_Id_new [OF r n] by (simp add: StringValue_def)
  moreover have "hd (issued empty_block_world
                   (create_request example_remote empty_block_config empty_block_world))
     = Call_RequestSpotFleet empty_block_config"
    using create_request_issued_first
      [of empty_block_world example_remote empty_block_config]
    by auto
  ultimately show ?thesis
    using c by (simp add: empty_block_world_def example_data_def)
qed

text \<open>
  C9, amended. For every Create call whose \<^verbatim>\<open>spot_maintenance_strategies\<close> starts with
  a block that is not empty while the fleet type is not \<^verbatim>\<open>maintain\<close>, whose launch
  specifications, if there are any, are built without an error and whose launch template
  configurations are expanded without a panic: Create returns no diagnostic, issues no
  remote create call (the only remote calls it makes are the lookups of the root device of
  an image made while the launch specifications are built), leaves the resource data, the
  empty handle among them, as they were, and logs one warning.
\<close>

theorem Create_maintenance_strategies_not_maintain:
  assumes "fleet_type (rd w) \<noteq> ''maintain''"
    and "spot_maintenance_strategies (rd w) = Some m # rest"
    and "create_launch_specifications env (rd w) = (Inr launchSpecs, lookups)"
    and "expandLaunchTemplateConfigs (expandInstanceRequirements env)
           (launch_template_config (rd w)) = Returns launchTemplateConfigs"
  shows "\<exists>result.
           resourceSpotFleetRequestCreate env w = Returns result \<and>
           fst result = [] \<and>
           issued w result = lookups \<and>
           list_all is_lookup lookups \<and>
           rd (snd result) = rd w \<and>
           logged (snd result) =
             logged w @
             [''[WARN] Spot Fleet has an invalid configuration and can not be requested.'']"
proof -
  have l: "list_all is_lookup lookups"
    using create_launch_specifications_lookups [of env "rd w"] assms(3) by simp
  have s: "SpotMaintenanceStrategies
             (spotFleetConfig_of env (rd w) launchSpecs launchTemplateConfigs) \<noteq> None"
    using assms(2) by (simp add: spotFleetConfig_of_def)
  have "resourceSpotFleetRequestCreate env w =
          Returns ([], log_Printf
                         ''[WARN] Spot Fleet has an invalid configuration and can not be requested.''
                         (called_all lookups w))"
  proof (cases "launch_template_config (rd w) = []")
    case True
    with assms(4) have "launchTemplateConfigs = []" by simp
    with assms(1) s True show ?thesis
      by (simp add: resourceSpotFleetRequestCreate_def create_config_def assms(3)
          called_all_def Let_def)
  next
    case False
    with assms(1) s show ?thesis
      by (simp add: resourceSpotFleetRequestCreate_def create_config_def assms(3,4)
          called_all_def Let_def)
  qed
  with l show ?thesis
    by (simp add: issued_def log_Printf_def called_all_def)
qed

theorem Create_maintenance_strategies_not_maintain_witness:
  "fleet_type (rd rebalance_world) \<noteq> ''maintain'' \<and>
   spot_maintenance_strategies (rd rebalance_world) = Some example_maintenance_strategies # [] \<and>
   launch_specification (rd rebalance_world) = [example_launch_specification] \<and>
   create_launch_specifications example_remote (rd rebalance_world) =
     (Inr [example_wire_launch_specification], [Call_FetchRootDeviceName ''ami-1'']) \<and>
   expandLaunchTemplateConfigs (expandInstanceRequirements example_remote)
     (launch_template_config (rd rebalance_world)) = Returns [] \<and>
   (\<exists>result.
      resourceSpotFleetRequestCreate example_remote rebalance_world = Returns result \<and>
      fst result = [] \<and>
      issued rebalance_world result = [Call_FetchRootDeviceName ''ami-1''] \<and>
      Id (rd (snd result)) = [] \<and>
      logged (snd result) =
        [''[WARN] Spot Fleet has an invalid configuration and can not be requested.''])"
proof -
  have a: "fleet_type (rd rebalance_world) \<noteq> ''maintain''"
    by (simp add: rebalance_world_def)
  have b: "spot_maintenance_strategies (rd rebalance_world) =
             Some example_maintenance_strategies # []"
    by (simp add: rebalance_world_def)
  have c: "launch_specification (rd rebalance_world) = [example_launch_specification]"
    by (simp add: rebalance_world_def)
  have r: "readSpotFleetBlockDeviceMappingsFromConfig example_remote example_launch_specification
             = (Inr (LS_BlockDeviceMappings example_wire_launch_specification),
                [Call_FetchRootDeviceName ''ami-1''])"
    by (simp add: readSpotFleetBlockDeviceMappingsFromConfig_def example_launch_specification_def
        example_wire_launch_specification_def example_remote_def root_block_device_ebs_def
        true_bool_def nonempty_string_def nonzero_int_def positive_int_def)
  have o: "launch_specification_opts example_remote example_launch_specification None
             (LS_BlockDeviceMappings example_wire_launch_specification)
           = example_wire_launch_specification"
    by (simp add: launch_specification_opts_def example_launch_specification_def
        example_wire_launch_specification_def nonempty_string_def Let_def)
  have n: "nonempty_string (ls_weighted_capacity example_launch_specification) = None"
    by (simp add: example_launch_specification_def nonempty_string_def)
  have d: "create_launch_specifications example_remote (rd rebalance_world) =
     (Inr [example_wire_launch_specification], [Call_FetchRootDeviceName ''ami-1''])"
    unfolding create_launch_specifications_def c
    by (simp add: buildSpotFleetLaunchSpecification_def n r o)
  have e: "expandLaunchTemplateConfigs (expandInstanceRequirements example_remote)
             (launch_template_config (rd rebalance_world)) = Returns []"
    by (simp add: rebalance_world_def)
  have i: "Id (rd rebalance_world) = []" "logged rebalance_world = []"
    by (simp_all add: rebalance_world_def example_data_def)
  show ?thesis
    using a b c d e i Create_maintenance_strategies_not_maintain [OF a b d e] by auto
qed

subsection \<open>Read\<close>

text \<open>
  C3, as stated, fails: for a resource that was just created, a not-found answer makes
  Read return an error diagnostic and keep the handle.
\<close>

theorem Read_not_found_counterexample:
  "FindSpotFleetRequestByID_result absent_remote (Id (rd created_world)) = Inl NotFoundError \<and>
   NotFound (Some NotFoundError) \<and>
   HasError (fst (resourceSpotFleetRequestRead absent_remote created_world)) \<and>
   Id (rd (snd (resourceSpotFleetRequestRead absent_remote created_world))) = ''sfr-1''"
  by (simp add: resourceSpotFleetRequestRead_def absent_remote_def example_remote_def
      created_world_def called_def AppendErrorf_def HasError_def Let_def)

text \<open>
  C3, amended. For every Read on a handle for which the remote reports not-found: when the
  resource was not just created, Read clears the stored handle and returns no diagnostic;
  when it was just created (the Read that ends Create), Read returns one error diagnostic
  and leaves the resource data, the handle among them, as they were.
\<close>

theorem Read_not_found:
  assumes "FindSpotFleetRequestByID_result env (Id (rd w)) = Inl err"
    and "NotFound (Some err)"
  shows "(\<not> IsNewResource (rd w) \<longrightarrow>
            fst (resourceSpotFleetRequestRead env w) = [] \<and>
            Id (rd (snd (resourceSpotFleetRequestRead env w))) = []) \<and>
         (IsNewResource (rd w) \<longrightarrow>
            fst (resourceSpotFleetRequestRead env w) =
              [Diagnostic Error ''reading EC2 Spot Fleet Request'' err] \<and>
            rd (snd (resourceSpotFleetRequestRead env w)) = rd w)"
  using assms
  by (simp add: resourceSpotFleetRequestRead_def SetId_def called_def log_Printf_def
      AppendErrorf_def Let_def)

theorem Read_not_found_witness:
  "FindSpotFleetRequestByID_result absent_remote (Id (rd existing_world)) = Inl NotFoundError \<and>
   NotFound (Some NotFoundError) \<and>
   \<not> IsNewResource (rd existing_world) \<and>
   fst (resourceSpotFleetRequestRead absent_remote existing_world) = [] \<and>
   Id (rd (snd (resourceSpotFleetRequestRead absent_remote existing_world))) = [] \<and>
   FindSpotFleetRequestByID_result absent_remote (Id (rd created_world)) = Inl NotFoundError \<and>
   IsNewResource (rd created_world) \<and>
   fst (resourceSpotFleetRequestRead absent_remote created_world) =
     [Diagnostic Error ''reading EC2 Spot Fleet Request'' NotFoundError]"
proof -
  have a: "FindSpotFleetRequestByID_result absent_remote (Id (rd existing_world))
             = Inl NotFoundError"
    by (simp add: absent_remote_def example_remote_def)
  have a': "FindSpotFleetRequestByID_result absent_remote (Id (rd created_world))
             = Inl NotFoundError"
    by (simp add: absent_remote_def example_remote_def)
  have b: "NotFound (Some NotFoundError)" by simp
  have c: "\<not> IsNewResource (rd existing_world)" by (simp add: existing_world_def)
  have c': "IsNewResource (rd created_world)" by (simp add: created_world_def)
  show ?thesis
    using a a' b c c' Read_not_found [OF a b] Read_not_found [OF a' b] by simp
qed

subsection \<open>Update\<close>

text \<open>
  C4. For every Update call in which no attribute of the schema other than
  \<^verbatim>\<open>tags\<close> and \<^verbatim>\<open>tags_all\<close> has changed, Update is the Read of the resource.
  It sends no modify request and does not wait: its calls are the lookup of the fleet
  request and then the lookups of the root device for the images of the launch
  specifications the remote service holds. When the fleet request is found and its launch
  specifications are read back, Update returns no diagnostic and the resource data are
  refreshed: every attribute that Read sets holds the remote value.
\<close>

theorem Update_unchanged:
  assumes "\<forall>attr \<in> set (map fst Schema).
             attr \<noteq> ''tags'' \<and> attr \<noteq> ''tags_all'' \<longrightarrow> \<not> HasChange (rd w) attr"
  shows "resourceSpotFleetRequestUpdate env w = resourceSpotFleetRequestRead env w \<and>
         issued w (resourceSpotFleetRequestUpdate env w) =
           Call_FindSpotFleetRequestByID (Id (rd w)) # Read_lookups env (rd w) \<and>
         list_all is_lookup (Read_lookups env (rd w)) \<and>
         (\<forall>output launchSpec.
            FindSpotFleetRequestByID_result env (Id (rd w)) = Inr output \<longrightarrow>
            fst (launchSpecsToSet env (LaunchSpecifications (SpotFleetRequestConfig output)))
              = Inr launchSpec \<longrightarrow>
            fst (resourceSpotFleetRequestUpdate env w) = [] \<and>
            refreshed env output launchSpec (rd w)
              (rd (snd (resourceSpotFleetRequestUpdate env w))))"
proof -
  have "\<not> HasChangesExcept (rd w) [''tags'', ''tags_all'']"
    using assms unfolding HasChangesExcept_def list_ex_iff by auto
  then have u: "resourceSpotFleetRequestUpdate env w = resourceSpotFleetRequestRead env w"
    by (simp add: resourceSpotFleetRequestUpdate_def append_Read_nil)
  show ?thesis
    unfolding u using Read_refreshes [of env w]
    by (simp add: issued_def Read_calls Read_lookups_are_lookups)
qed

theorem Update_unchanged_witness:
  "\<not> HasChangesExcept (rd retagged_world) [''tags'', ''tags_all''] \<and>
   HasChange (rd retagged_world) ''tags'' \<and>
   FindSpotFleetRequestByID_result legacy_remote (Id (rd retagged_world))
     = Inr legacy_remote_output \<and>
   fst (launchSpecsToSet legacy_remote
          (LaunchSpecifications (SpotFleetRequestConfig legacy_remote_output)))
     = Inr [example_launch_specification] \<and>
   resourceSpotFleetRequestUpdate legacy_remote retagged_world =
     resourceSpotFleetRequestRead legacy_remote retagged_world \<and>
   issued retagged_world (resourceSpotFleetRequestUpdate legacy_remote retagged_world) =
     [Call_FindSpotFleetRequestByID ''sfr-1'', Call_FetchRootDeviceName ''ami-1''] \<and>
   fst (resourceSpotFleetRequestUpdate legacy_remote retagged_world) = [] \<and>
   refreshed legacy_remote legacy_remote_output [example_launch_specification]
     (rd retagged_world) (rd (snd (resourceSpotFleetRequestUpdate legacy_remote retagged_world))) \<and>
   spot_request_state (rd (snd (resourceSpotFleetRequestUpdate legacy_remote retagged_world)))
     = ''active'' \<and>
   launch_template_config (rd (snd (resourceSpotFleetRequestUpdate legacy_remote retagged_world)))
     = []"
proof -
  have h: "\<forall>attr \<in> set (map fst Schema).
      attr \<noteq> ''tags'' \<and> attr \<noteq> ''tags_all'' \<longrightarrow> \<not> HasChange (rd retagged_world) attr"
    by (simp add: retagged_world_def)
  have c: "\<not> HasChangesExcept (rd retagged_world) [''tags'', ''tags_all'']"
    by (simp add: HasChangesExcept_def Schema_def retagged_world_def)
  have t: "HasChange (rd retagged_world) ''tags''" by (simp add: retagged_world_def)
  have f: "FindSpotFleetRequestByID_result legacy_remote (Id (rd retagged_world))
             = Inr legacy_remote_output"
    by (simp add: legacy_remote_def example_remote_def)
  have s: "fst (launchSpecsToSet legacy_remote
                  (LaunchSpecifications (SpotFleetRequestConfig legacy_remote_output)))
             = Inr [example_launch_specification]"
    by (simp add: launchSpecsToSet_def legacy_remote_output_def legacy_remote_def
        example_remote_def)
  have l: "Call_FindSpotFleetRequestByID (Id (rd retagged_world)) #
             Read_lookups legacy_remote (rd retagged_world) =
           [Call_FindSpotFleetRequestByID ''sfr-1'', Call_FetchRootDeviceName ''ami-1'']"
    unfolding Read_lookups_def f
    by (simp add: retagged_world_def legacy_remote_output_def legacy_remote_def
        example_remote_def example_wire_launch_specification_def StringValue_def)
  note u = Update_unchanged [OF h, of legacy_remote, unfolded l]
  from u f s have r: "fst (resourceSpotFleetRequestUpdate legacy_remote retagged_world) = []"
    "refreshed legacy_remote legacy_remote_output [example_launch_specification]
       (rd retagged_world) (rd (snd (resourceSpotFleetRequestUpdate legacy_remote retagged_world)))"
    by blast+
  from r(2) have v: "spot_request_state
        (rd (snd (resourceSpotFleetRequestUpdate legacy_remote retagged_world))) = ''active''"
    "launch_template_config
        (rd (snd (resourceSpotFleetRequestUpdate legacy_remote retagged_world))) = []"
    by (simp_all add: refreshed_def legacy_remote_output_def StringValue_def)
  show ?thesis
    using c t f s u r v by blast
qed

text \<open>
  C5. Every modify request that Update sends carries the handle, and each of its fields
  \<^verbatim>\<open>TargetCapacity\<close>, \<^verbatim>\<open>OnDemandTargetCapacity\<close> and
  \<^verbatim>\<open>ExcessCapacityTerminationPolicy\<close> is present only if the attribute has changed
  since the last read, and then holds the attribute's new value; an unchanged attribute is
  absent from the request.
\<close>

theorem Update_sends_only_changed_fields:
  assumes "Call_ModifySpotFleetRequest input \<in> set (issued w (resourceSpotFleetRequestUpdate env w))"
  shows "Modify_SpotFleetRequestId input = Some (Id (rd w)) \<and>
         (Modify_TargetCapacity input \<noteq> None \<longrightarrow>
            HasChange (rd w) ''target_capacity'' \<and>
            Modify_TargetCapacity input = Some (target_capacity (rd w))) \<and>
         (Modify_OnDemandTargetCapacity input \<noteq> None \<longrightarrow>
            HasChange (rd w) ''on_demand_target_capacity'' \<and>
            Modify_OnDemandTargetCapacity input = Some (on_demand_target_capacity (rd w))) \<and>
         (Modify_ExcessCapacityTerminationPolicy input \<noteq> None \<longrightarrow>
            HasChange (rd w) ''excess_capacity_termination_policy'' \<and>
            Modify_ExcessCapacityTerminationPolicy input =
              Some (excess_capacity_termination_policy (rd w)))"
proof -
  have n: "Call_ModifySpotFleetRequest input \<notin> set (Read_lookups env (rd w))"
    using Read_lookups_are_lookups [of env "rd w"] by (auto simp add: list_all_iff)
  have "input = modify_input (rd w)"
    using assms n unfolding Update_issued by (auto split: if_splits option.splits)
  then show ?thesis
    by (simp add: modify_input_def GetOk_string_def)
qed

theorem Update_sends_only_changed_fields_witness:
  "Call_ModifySpotFleetRequest
     \<lparr> Modify_SpotFleetRequestId = Some ''sfr-1'', Modify_TargetCapacity = Some 4,
       Modify_OnDemandTargetCapacity = None, Modify_ExcessCapacityTerminationPolicy = None \<rparr>
     \<in> set (issued resized_world (resourceSpotFleetRequestUpdate example_remote resized_world)) \<and>
   HasChange (rd resized_world) ''target_capacity'' \<and>
   \<not> HasChange (rd resized_world) ''on_demand_target_capacity'' \<and>
   \<not> HasChange (rd resized_world) ''excess_capacity_termination_policy'' \<and>
   target_capacity (rd resized_world) = 4"
proof -
  have m: "modify_input (rd resized_world) =
     \<lparr> Modify_SpotFleetRequestId = Some ''sfr-1'', Modify_TargetCapacity = Some 4,
       Modify_OnDemandTargetCapacity = None, Modify_ExcessCapacityTerminationPolicy = None \<rparr>"
    by (simp add: modify_input_def resized_world_def)
  have a: "Call_ModifySpotFleetRequest
     \<lparr> Modify_SpotFleetRequestId = Some ''sfr-1'', Modify_TargetCapacity = Some 4,
       Modify_OnDemandTargetCapacity = None, Modify_ExcessCapacityTerminationPolicy = None \<rparr>
     \<in> set (issued resized_world (resourceSpotFleetRequestUpdate example_remote resized_world))"
    unfolding Update_issued using resized_HasChangesExcept m by simp
  show ?thesis
    using a Update_sends_only_changed_fields [OF a]
    by (simp add: resized_world_def)
qed

text \<open>
  C8, as stated, fails: \<^verbatim>\<open>allocation_strategy\<close> is \<^verbatim>\<open>ForceNew\<close>; an Update
  whose plan changes it sends a modify request, waits and reads, and returns no error.
\<close>

theorem Update_immutable_change_counterexample:
  "ForceNew ''allocation_strategy'' \<and>
   HasChange (rd replanned_world) ''allocation_strategy'' \<and>
   issued replanned_world (resourceSpotFleetRequestUpdate example_remote replanned_world) =
     [Call_ModifySpotFleetRequest
        \<lparr> Modify_SpotFleetRequestId = Some ''sfr-1'', Modify_TargetCapacity = None,
          Modify_OnDemandTargetCapacity = None, Modify_ExcessCapacityTerminationPolicy = None \<rparr>,
      Call_WaitSpotFleetRequestUpdated ''sfr-1'',
      Call_FindSpotFleetRequestByID ''sfr-1''] \<and>
   \<not> HasError (fst (resourceSpotFleetRequestUpdate example_remote replanned_world))"
proof -
  have m: "modify_input (rd replanned_world) =
     \<lparr> Modify_SpotFleetRequestId = Some ''sfr-1'', Modify_TargetCapacity = None,
       Modify_OnDemandTargetCapacity = None, Modify_ExcessCapacityTerminationPolicy = None \<rparr>"
    by (simp add: modify_input_def replanned_world_def)
  have i: "Id (rd replanned_world) = ''sfr-1''" by (simp add: replanned_world_def)
  have r: "ModifySpotFleetRequest_result example_remote (modify_input (rd replanned_world)) = None"
    "WaitSpotFleetRequestUpdated_result example_remote ''sfr-1'' = None"
    by (simp_all add: example_remote_def)
  have calls: "issued replanned_world
      (resourceSpotFleetRequestUpdate example_remote replanned_world) =
     [Call_ModifySpotFleetRequest
        \<lparr> Modify_SpotFleetRequestId = Some ''sfr-1'', Modify_TargetCapacity = None,
          Modify_OnDemandTargetCapacity = None, Modify_ExcessCapacityTerminationPolicy = None \<rparr>,
      Call_WaitSpotFleetRequestUpdated ''sfr-1'',
      Call_FindSpotFleetRequestByID ''sfr-1'']"
    unfolding Update_issued using replanned_HasChangesExcept m i r
    by (simp add: example_Read_lookups)
  have f: "FindSpotFleetRequestByID_result example_remote ''sfr-1'' = Inr example_remote_output"
    "launchSpecsToSet example_remote
       (LaunchSpecifications (SpotFleetRequestConfig example_remote_output)) = (Inr [], [])"
    by (simp_all add: example_remote_def launchSpecsToSet_def example_remote_output_def
        example_remote_config_def)
  have "fst (resourceSpotFleetRequestUpdate example_remote replanned_world) = []"
    using replanned_HasChangesExcept r i f
    by (simp add: resourceSpotFleetRequestUpdate_def append_Read_def
        resourceSpotFleetRequestRead_def called_def Let_def)
  then show ?thesis
    using calls ForceNew_allocation_strategy
    by (simp add: HasError_def replanned_world_def)
qed

text \<open>
  C8, amended. The update function does not check immutability, which the schema declares
  (\<^verbatim>\<open>ForceNew\<close>) and leaves to the plugin framework. For every Update call whose plan
  changes a \<^verbatim>\<open>ForceNew\<close> attribute, the first call made is the modify request for the
  handle, with the changed ones of the three mutable fields; when the remote accepts it and
  the wait succeeds, the diagnostics are those of the Read that follows.
\<close>

theorem Update_immutable_change_not_rejected:
  assumes "ForceNew attr" and "HasChange (rd w) attr"
  shows "(\<exists>rest. issued w (resourceSpotFleetRequestUpdate env w) =
            Call_ModifySpotFleetRequest (modify_input (rd w)) # rest) \<and>
         (ModifySpotFleetRequest_result env (modify_input (rd w)) = None \<longrightarrow>
          WaitSpotFleetRequestUpdated_result env (Id (rd w)) = None \<longrightarrow>
          fst (resourceSpotFleetRequestUpdate env w) =
            fst (resourceSpotFleetRequestRead env
                   (called (Call_WaitSpotFleetRequestUpdated (Id (rd w)))
                      (called (Call_ModifySpotFleetRequest (modify_input (rd w))) w))))"
proof -
  have c: "HasChangesExcept (rd w) [''tags'', ''tags_all'']"
    using assms by (rule ForceNew_HasChangesExcept)
  show ?thesis
    unfolding Update_issued using c
    by (simp add: resourceSpotFleetRequestUpdate_def append_Read_def called_def Let_def)
qed

theorem Update_immutable_change_not_rejected_witness:
  "ForceNew ''allocation_strategy'' \<and>
   HasChange (rd replanned_world) ''allocation_strategy'' \<and>
   (\<exists>rest. issued replanned_world (resourceSpotFleetRequestUpdate example_remote replanned_world) =
            Call_ModifySpotFleetRequest (modify_input (rd replanned_world)) # rest) \<and>
   ModifySpotFleetRequest_result example_remote (modify_input (rd replanned_world)) = None \<and>
   WaitSpotFleetRequestUpdated_result example_remote (Id (rd replanned_world)) = None"
proof -
  have h: "HasChange (rd replanned_world) ''allocation_strategy''"
    by (simp add: replanned_world_def)
  have r: "ModifySpotFleetRequest_result example_remote (modify_input (rd replanned_world)) = None"
    "WaitSpotFleetRequestUpdated_result example_remote (Id (rd replanned_world)) = None"
    by (simp_all add: example_remote_def)
  show ?thesis
    using h r ForceNew_allocation_strategy
      Update_immutable_change_not_rejected [OF ForceNew_allocation_strategy h, of example_remote]
    by blast
qed

subsection \<open>Delete\<close>

text \<open>
  C1. Delete is idempotent: when the error after the cancel call carries the code
  \<^verbatim>\<open>fleetRequestIdDoesNotExist\<close> (the fleet request is already gone), Delete returns
  no diagnostic, leaves the resource data as they were and makes no call after the cancel.
  This holds in every world, so also in the one a first Delete has left.
\<close>

theorem Delete_already_gone:
  assumes "ErrCodeEquals (cancel_error env (rd w)) ''fleetRequestIdDoesNotExist''"
  shows "fst (resourceSpotFleetRequestDelete env w) = [] \<and>
         rd (snd (resourceSpotFleetRequestDelete env w)) = rd w \<and>
         issued w (resourceSpotFleetRequestDelete env w) =
           [Call_CancelSpotFleetRequests [Id (rd w)] (terminateInstances env (rd w))]"
  using assms
  by (simp add: resourceSpotFleetRequestDelete_def issued_def called_def log_Printf_def Let_def)

theorem Delete_already_gone_witness:
  "ErrCodeEquals (cancel_error gone_remote (rd existing_world)) ''fleetRequestIdDoesNotExist'' \<and>
   fst (resourceSpotFleetRequestDelete gone_remote existing_world) = [] \<and>
   rd (snd (resourceSpotFleetRequestDelete gone_remote existing_world)) = rd existing_world \<and>
   issued existing_world (resourceSpotFleetRequestDelete gone_remote existing_world) =
     [Call_CancelSpotFleetRequests [''sfr-1''] True]"
proof -
  have h: "ErrCodeEquals (cancel_error gone_remote (rd existing_world))
             ''fleetRequestIdDoesNotExist''"
    by (simp add: cancel_error_def gone_remote_def example_remote_def existing_world_def
        example_data_def terminateInstances_def StringValue_def)
  have t: "terminateInstances gone_remote (rd existing_world)"
    by (simp add: gone_remote_def example_remote_def existing_world_def
        example_data_def terminateInstances_def)
  have i: "Id (rd existing_world) = ''sfr-1''"
    by (simp add: existing_world_def)
  show ?thesis
    using h Delete_already_gone [OF h] t i by simp
qed

text \<open>
  C7, as stated, fails: the first poll finds an instance and the second answers that the
  fleet request is not found. Delete returns no diagnostic after two polls, although no
  poll has found the count of active instances at zero.
\<close>

theorem Delete_waits_for_instances_counterexample:
  "terminateInstances unknown_remote (rd existing_world) \<and>
   cancel_error unknown_remote (rd existing_world) = None \<and>
   delete_polls unknown_remote = 5 \<and>
   FindSpotFleetInstances_result unknown_remote ''sfr-1'' 0 = Inr [''i-1''] \<and>
   FindSpotFleetInstances_result unknown_remote ''sfr-1'' 1 = Inl NotFoundError \<and>
   FindSpotFleetInstances_result unknown_remote ''sfr-1'' 2 = Inl NotFoundError \<and>
   FindSpotFleetInstances_result unknown_remote ''sfr-1'' 3 = Inl NotFoundError \<and>
   FindSpotFleetInstances_result unknown_remote ''sfr-1'' 4 = Inl NotFoundError \<and>
   resourceSpotFleetRequestDelete unknown_remote existing_world =
     ([], \<lparr> rd = rd existing_world,
            calls = [Call_CancelSpotFleetRequests [''sfr-1''] True,
                     Call_FindSpotFleetInstances ''sfr-1'',
                     Call_FindSpotFleetInstances ''sfr-1''],
            logged = [''[INFO] Deleting EC2 Spot Fleet Request''] \<rparr>)"
proof -
  have t: "terminateInstances unknown_remote (rd existing_world)"
    by (simp add: unknown_remote_def example_remote_def existing_world_def example_data_def
        terminateInstances_def)
  have c: "cancel_error unknown_remote (rd existing_world) = None"
    using t by (simp add: cancel_error_def unknown_remote_def example_remote_def)
  have polls: "RetryUntilNotFound (delete_polls unknown_remote)
                 (poll_instances unknown_remote (rd existing_world)) 0 = (None, 2)"
    by (simp add: unknown_remote_def example_remote_def poll_instances_def eval_nat_numeral)
  have d: "resourceSpotFleetRequestDelete unknown_remote existing_world =
     ([], \<lparr> rd = rd existing_world,
            calls = [Call_CancelSpotFleetRequests [''sfr-1''] True,
                     Call_FindSpotFleetInstances ''sfr-1'',
                     Call_FindSpotFleetInstances ''sfr-1''],
            logged = [''[INFO] Deleting EC2 Spot Fleet Request''] \<rparr>)"
    using t c polls
    by (simp add: resourceSpotFleetRequestDelete_def called_def log_Printf_def
        existing_world_def Let_def eval_nat_numeral)
  show ?thesis
    using t c d by (simp add: unknown_remote_def example_remote_def)
qed

text \<open>
  C7, amended. For every Delete call that terminates instances, after the cancel has
  succeeded Delete polls the active instances. It returns no diagnostic exactly when,
  within the timeout, some poll finds no instance left or answers that the fleet request is
  not found, every poll before it having found instances. When every poll within the
  timeout still finds instances, Delete returns the error diagnostic of the timeout. When a
  poll fails with another error, every poll before it having found instances, Delete
  returns that error.
\<close>

theorem Delete_waits_for_instances:
  assumes "terminateInstances env (rd w)"
    and "cancel_error env (rd w) = None"
  shows "(fst (resourceSpotFleetRequestDelete env w) = [] \<longleftrightarrow>
            (\<exists>k < delete_polls env.
               poll_finds_none (FindSpotFleetInstances_result env (Id (rd w)) k) \<and>
               (\<forall>j < k. poll_finds_instances
                          (FindSpotFleetInstances_result env (Id (rd w)) j)))) \<and>
         ((\<forall>k < delete_polls env.
             poll_finds_instances (FindSpotFleetInstances_result env (Id (rd w)) k)) \<longrightarrow>
            fst (resourceSpotFleetRequestDelete env w) =
              [Diagnostic Error
                 ''waiting for EC2 Spot Fleet Request active instance count to reach 0''
                 TimeoutError]) \<and>
         (\<forall>k err.
            k < delete_polls env \<longrightarrow>
            FindSpotFleetInstances_result env (Id (rd w)) k = Inl err \<longrightarrow>
            \<not> NotFound (Some err) \<longrightarrow>
            (\<forall>j < k. poll_finds_instances
                       (FindSpotFleetInstances_result env (Id (rd w)) j)) \<longrightarrow>
            fst (resourceSpotFleetRequestDelete env w) =
              [Diagnostic Error
                 ''waiting for EC2 Spot Fleet Request active instance count to reach 0''
                 err])"
proof -
  let ?f = "poll_instances env (rd w)"
  let ?F = "FindSpotFleetInstances_result env (Id (rd w))"
  let ?n = "delete_polls env"
  let ?r = "RetryUntilNotFound ?n ?f 0"
  let ?msg = "''waiting for EC2 Spot Fleet Request active instance count to reach 0''"
  note wait = Delete_wait [OF assms]
  have stops: "?r = (if NotFound (Some e) then None else Some e, Suc k)"
    if "k < ?n" "?f k = Inl e" "\<forall>j<k. poll_finds_instances (?F j)" for k e
  proof -
    have "\<forall>j<k. \<exists>v. ?f (0 + j) = Inr v"
      using that(3) by (simp add: poll_instances_Inr)
    from RetryUntilNotFound_stops [of k ?n ?f 0 e] that(1,2) this show ?thesis by simp
  qed
  have timeout: "fst ?r = Some TimeoutError" if "\<forall>k<?n. poll_finds_instances (?F k)"
  proof -
    have "\<forall>k<?n. \<exists>v. ?f (0 + k) = Inr v"
      using that by (simp add: poll_instances_Inr)
    from RetryUntilNotFound_timeout [OF this] show ?thesis by simp
  qed
  have success: "fst ?r = None \<longleftrightarrow>
      (\<exists>k<?n. poll_finds_none (?F k) \<and> (\<forall>j<k. poll_finds_instances (?F j)))"
  proof
    assume none: "fst ?r = None"
    have "\<not> (\<forall>k<?n. \<exists>v. ?f k = Inr v)"
    proof
      assume "\<forall>k<?n. \<exists>v. ?f k = Inr v"
      then have "\<forall>k<?n. poll_finds_instances (?F k)"
        using poll_instances_Inr [of env "rd w"] by blast
      from timeout [OF this] none show False by simp
    qed
    from first_stop [OF this] obtain k e where
      k: "k < ?n" "?f k = Inl e" "\<forall>j<k. \<exists>v. ?f j = Inr v" by blast
    from k(3) have before: "\<forall>j<k. poll_finds_instances (?F j)"
      using poll_instances_Inr [of env "rd w"] by blast
    from stops [OF k(1,2) before] none have "NotFound (Some e)"
      by (simp split: if_splits)
    with k(2) have "poll_finds_none (?F k)"
      using poll_instances_NotFound [of env "rd w" k] by blast
    with k(1) before
    show "\<exists>k<?n. poll_finds_none (?F k) \<and> (\<forall>j<k. poll_finds_instances (?F j))" by blast
  next
    assume "\<exists>k<?n. poll_finds_none (?F k) \<and> (\<forall>j<k. poll_finds_instances (?F j))"
    then obtain k where k: "k < ?n" "poll_finds_none (?F k)"
      "\<forall>j<k. poll_finds_instances (?F j)" by blast
    from k(2) obtain e where e: "?f k = Inl e" "NotFound (Some e)"
      using poll_instances_NotFound [of env "rd w" k] by blast
    from stops [OF k(1) e(1) k(3)] e(2) show "fst ?r = None" by simp
  qed
  have a: "fst (resourceSpotFleetRequestDelete env w) = [] \<longleftrightarrow>
      (\<exists>k<?n. poll_finds_none (?F k) \<and> (\<forall>j<k. poll_finds_instances (?F j)))"
    unfolding wait success [symmetric] by (simp split: option.splits)
  have b: "fst (resourceSpotFleetRequestDelete env w) = [Diagnostic Error ?msg TimeoutError]"
    if "\<forall>k<?n. poll_finds_instances (?F k)"
    unfolding wait using timeout [OF that] by simp
  have c: "fst (resourceSpotFleetRequestDelete env w) = [Diagnostic Error ?msg err]"
    if "k < ?n" "?F k = Inl err" "\<not> NotFound (Some err)"
      "\<forall>j<k. poll_finds_instances (?F j)" for k err
    unfolding wait
    using stops [OF that(1) poll_instances_Inl [OF that(2)] that(4)] that(3) by simp
  show ?thesis
    using a b c by blast
qed

theorem Delete_waits_for_instances_witness:
  "terminateInstances example_remote (rd existing_world) \<and>
   cancel_error example_remote (rd existing_world) = None \<and>
   2 < delete_polls example_remote \<and>
   poll_finds_instances (FindSpotFleetInstances_result example_remote ''sfr-1'' 0) \<and>
   poll_finds_instances (FindSpotFleetInstances_result example_remote ''sfr-1'' 1) \<and>
   poll_finds_none (FindSpotFleetInstances_result example_remote ''sfr-1'' 2) \<and>
   fst (resourceSpotFleetRequestDelete example_remote existing_world) = [] \<and>
   issued existing_world (resourceSpotFleetRequestDelete example_remote existing_world) =
     [Call_CancelSpotFleetRequests [''sfr-1''] True,
      Call_FindSpotFleetInstances ''sfr-1'',
      Call_FindSpotFleetInstances ''sfr-1'',
      Call_FindSpotFleetInstances ''sfr-1''] \<and>
   terminateInstances busy_remote (rd existing_world) \<and>
   cancel_error busy_remote (rd existing_world) = None \<and>
   delete_polls busy_remote = 2 \<and>
   poll_finds_instances (FindSpotFleetInstances_result busy_remote ''sfr-1'' 0) \<and>
   poll_finds_instances (FindSpotFleetInstances_result busy_remote ''sfr-1'' 1) \<and>
   fst (resourceSpotFleetRequestDelete busy_remote existing_world) =
     [Diagnostic Error
        ''waiting for EC2 Spot Fleet Request active instance count to reach 0''
        TimeoutError]"
proof -
  have i: "Id (rd existing_world) = ''sfr-1''" by (simp add: existing_world_def)
  have t: "terminateInstances example_remote (rd existing_world)"
    by (simp add: example_remote_def existing_world_def example_data_def terminateInstances_def)
  have c: "cancel_error example_remote (rd existing_world) = None"
    using t by (simp add: cancel_error_def example_remote_def)
  have z: "2 < delete_polls example_remote"
    by (simp add: example_remote_def)
  have p: "poll_finds_instances (FindSpotFleetInstances_result example_remote ''sfr-1'' 0)"
    "poll_finds_instances (FindSpotFleetInstances_result example_remote ''sfr-1'' 1)"
    "poll_finds_none (FindSpotFleetInstances_result example_remote ''sfr-1'' 2)"
    by (simp_all add: example_remote_def poll_finds_instances_def poll_finds_none_def)
  have before: "\<forall>j<2. poll_finds_instances
                         (FindSpotFleetInstances_result example_remote ''sfr-1'' j)"
    using p(1,2) by (auto simp add: less_Suc_eq eval_nat_numeral)
  have ex: "\<exists>k < delete_polls example_remote.
       poll_finds_none (FindSpotFleetInstances_result example_remote (Id (rd existing_world)) k) \<and>
       (\<forall>j < k. poll_finds_instances
                  (FindSpotFleetInstances_result example_remote (Id (rd existing_world)) j))"
    unfolding i using z p(3) before by blast
  have ok: "fst (resourceSpotFleetRequestDelete example_remote existing_world) = []"
    using Delete_waits_for_instances [OF t c] ex by blast
  have polls: "RetryUntilNotFound (delete_polls example_remote)
                 (poll_instances example_remote (rd existing_world)) 0 = (None, 3)"
    by (simp add: example_remote_def poll_instances_def eval_nat_numeral)
  have calls: "issued existing_world
       (resourceSpotFleetRequestDelete example_remote existing_world) =
     [Call_CancelSpotFleetRequests [''sfr-1''] True,
      Call_FindSpotFleetInstances ''sfr-1'',
      Call_FindSpotFleetInstances ''sfr-1'',
      Call_FindSpotFleetInstances ''sfr-1'']"
    using t c polls i
    by (simp add: resourceSpotFleetRequestDelete_def issued_def called_def log_Printf_def
        Let_def eval_nat_numeral)
  have t': "terminateInstances busy_remote (rd existing_world)"
    by (simp add: busy_remote_def example_remote_def existing_world_def example_data_def
        terminateInstances_def)
  have c': "cancel_error busy_remote (rd existing_world) = None"
    using t' by (simp add: cancel_error_def busy_remote_def example_remote_def)
  have z': "delete_polls busy_remote = 2"
    by (simp add: busy_remote_def)
  have p': "poll_finds_instances (FindSpotFleetInstances_result busy_remote ''sfr-1'' 0)"
    "poll_finds_instances (FindSpotFleetInstances_result busy_remote ''sfr-1'' 1)"
    by (simp_all add: busy_remote_def poll_finds_instances_def)
  have all: "\<forall>k < delete_polls busy_remote.
       poll_finds_instances (FindSpotFleetInstances_result busy_remote (Id (rd existing_world)) k)"
    by (simp add: busy_remote_def poll_finds_instances_def)
  have late: "fst (resourceSpotFleetRequestDelete busy_remote existing_world) =
     [Diagnostic Error
        ''waiting for EC2 Spot Fleet Request active instance count to reach 0''
        TimeoutError]"
    using Delete_waits_for_instances [OF t' c'] all by blast
  show ?thesis
    using t c z p ok calls t' c' z' p' late by blast
qed




end
